theory Spec2Isabelle
  imports Main "HOL-Library.Sublist" "HOL-Library.Char_ord" "HOL-Library.List_Lexorder"
begin

section \<open>Python values shared by all modules\<close>

text \<open>
  Exceptions are values.  Only \<^verbatim>\<open>Exception\<close> and its subclasses are modelled: they are
  what a provider, a tool or a library call raises, and what \<^verbatim>\<open>except Exception\<close>
  catches.  An exception carries its class and the text \<^verbatim>\<open>str(e)\<close> yields.
\<close>

datatype exn_class = RuntimeError | AttributeError | IndexError | TypeError | OtherException

datatype exn = Exn exn_class string

fun exn_class_of :: "exn \<Rightarrow> exn_class" where
  "exn_class_of (Exn c t) = c"

fun exn_text :: "exn \<Rightarrow> string" where
  "exn_text (Exn c t) = t"

type_synonym 'a result = "exn + 'a"

text \<open>
  \<^verbatim>\<open>try: body  except Exception as e: handler\<close> over a state \<open>'s\<close>.  The body has
  already run when the handler starts, so the handler sees the state the body left.
\<close>

definition try_except ::
  "'a result \<times> 's \<Rightarrow> (exn \<Rightarrow> 's \<Rightarrow> 'a result \<times> 's) \<Rightarrow> 'a result \<times> 's" where
  "try_except body handler =
     (case body of
        (Inl e, s) \<Rightarrow> handler e s
      | (Inr v, s) \<Rightarrow> (Inr v, s))"

text \<open>An entry of a conversation: \<^verbatim>\<open>{"role": ..., "content": ...}\<close>.\<close>

datatype role = User | Assistant

record turn =
  role :: role
  content :: string

definition user_turn :: "string \<Rightarrow> turn" where
  "user_turn message = \<lparr>role = User, content = message\<rparr>"

definition assistant_turn :: "string \<Rightarrow> turn" where
  "assistant_turn text = \<lparr>role = Assistant, content = text\<rparr>"

subsection \<open>Decimal text of integers\<close>

definition digit_char :: "nat \<Rightarrow> char" where
  "digit_char n = ''0123456789'' ! (n mod 10)"

fun decimal :: "nat \<Rightarrow> string" where
  "decimal n = (if n < 10 then [digit_char n] else decimal (n div 10) @ [digit_char (n mod 10)])"

declare decimal.simps [simp del]

text \<open>\<^verbatim>\<open>str(i)\<close> for a Python int.\<close>

definition py_str_int :: "int \<Rightarrow> string" where
  "py_str_int i = (if i < 0 then CHR ''-'' # decimal (nat (- i)) else decimal (nat i))"


subsection \<open>\<^verbatim>\<open>str.join\<close>\<close>

fun join :: "string \<Rightarrow> string list \<Rightarrow> string" where
  "join sep [] = []"
| "join sep [x] = x"
| "join sep (x # y # ys) = x @ sep @ join sep (y # ys)"

section \<open>The tool library\<close>

subsection \<open>\<^verbatim>\<open>date_tool\<close>\<close>

text \<open>
  \<^verbatim>\<open>datetime.date\<close>: a year in 1..9999, a month in 1..12, a day of that month.
\<close>

record date =
  year :: nat
  month :: nat
  day :: nat

text \<open>A reading of the host clock in local time; \<^verbatim>\<open>date.today()\<close> keeps its date.\<close>

record clock_reading = date +
  hour :: nat
  minute :: nat
  second :: nat

definition date_today :: "clock_reading \<Rightarrow> date" where
  "date_today now = \<lparr>year = year now, month = month now, day = day now\<rparr>"





definition month_names :: "string list" where
  "month_names =
     [''January'', ''February'', ''March'', ''April'', ''May'', ''June'', ''July'',
      ''August'', ''September'', ''October'', ''November'', ''December'']"

text \<open>The source never sets a locale, so \<^verbatim>\<open>%B\<close> is the C locale's English name.\<close>

definition month_name :: "nat \<Rightarrow> string" where
  "month_name m = (if 1 \<le> m \<and> m \<le> 12 then month_names ! (m - 1) else [])"

definition two_digits :: "nat \<Rightarrow> string" where
  "two_digits n = (if n < 10 then CHR ''0'' # decimal n else decimal n)"

text \<open>
  The directives of \<^verbatim>\<open>strftime\<close> that the source uses: \<^verbatim>\<open>%B\<close> the full month name,
  \<^verbatim>\<open>%d\<close> the day as two digits, \<^verbatim>\<open>%Y\<close> the year in decimal (the C library does
  not pad a year below 1000).  Any other directive is left as it stands.
\<close>

definition directive :: "char \<Rightarrow> date \<Rightarrow> string" where
  "directive x d =
     (if x = CHR ''B'' then month_name (month d)
      else if x = CHR ''d'' then two_digits (day d)
      else if x = CHR ''Y'' then decimal (year d)
      else [CHR ''%'', x])"

fun strftime :: "string \<Rightarrow> date \<Rightarrow> string" where
  "strftime [] d = []"
| "strftime [c] d = [c]"
| "strftime (c # x # rest) d =
     (if c = CHR ''%'' then directive x d @ strftime rest d
      else c # strftime (x # rest) d)"

text \<open>
  \<^verbatim>\<open>today = date.today(); return today.strftime("%B %d, %Y")\<close>, the same in all seven
  adapters (the LangGraph one takes an argument it ignores).
\<close>

definition date_tool :: "clock_reading \<Rightarrow> string" where
  "date_tool now = (let today = date_today now in strftime ''%B %d, %Y'' today)"



subsection \<open>\<^verbatim>\<open>web_search\<close>\<close>

text \<open>
  JSON data as Python holds it after parsing.  A dict keeps its insertion order and its
  keys are distinct: an association list.  A float is carried as the text
  \<^verbatim>\<open>float.__repr__\<close> gives it, which is what the encoder writes.
\<close>

datatype json =
    JNull
  | JBool bool
  | JInt int
  | JFloat string
  | JString string
  | JArray "json list"
  | JObject "(string \<times> json) list"

text \<open>\<^verbatim>\<open>d.get(key, default)\<close>.\<close>

definition dict_get :: "('k \<times> 'v) list \<Rightarrow> 'k \<Rightarrow> 'v \<Rightarrow> 'v" where
  "dict_get d key dflt = (case map_of d key of None \<Rightarrow> dflt | Some v \<Rightarrow> v)"

definition hex_char :: "nat \<Rightarrow> char" where
  "hex_char n = ''0123456789abcdef'' ! (n mod 16)"

text \<open>
  The encoder's string escape with \<^verbatim>\<open>ensure_ascii\<close> (the default): the quote, the
  backslash and the five short escapes, and \<^verbatim>\<open>\uXXXX\<close> for every other character
  outside space..tilde.  A \<^typ>\<open>char\<close> stands for the code point of its number, so the
  first two hex digits are zero.
\<close>

definition escape_char :: "char \<Rightarrow> string" where
  "escape_char c =
     (if c = CHR 0x22 then [CHR 0x5C, CHR 0x22]
      else if c = CHR 0x5C then [CHR 0x5C, CHR 0x5C]
      else if c = CHR 0x0A then [CHR 0x5C, CHR ''n'']
      else if c = CHR 0x0D then [CHR 0x5C, CHR ''r'']
      else if c = CHR 0x09 then [CHR 0x5C, CHR ''t'']
      else if c = CHR 0x08 then [CHR 0x5C, CHR ''b'']
      else if c = CHR 0x0C then [CHR 0x5C, CHR ''f'']
      else if of_char c < (0x20 :: nat) \<or> (0x7E :: nat) < of_char c
        then [CHR 0x5C, CHR ''u'', CHR ''0'', CHR ''0'',
              hex_char (of_char c div 16), hex_char (of_char c mod 16)]
      else [c])"

definition encode_string :: "string \<Rightarrow> string" where
  "encode_string s = [CHR 0x22] @ concat (map escape_char s) @ [CHR 0x22]"

text \<open>\<^verbatim>\<open>json.dumps(v)\<close> with its default separators \<^verbatim>\<open>", "\<close> and \<^verbatim>\<open>": "\<close>.\<close>

fun json_dumps :: "json \<Rightarrow> string" where
  "json_dumps JNull = ''null''"
| "json_dumps (JBool b) = (if b then ''true'' else ''false'')"
| "json_dumps (JInt i) = py_str_int i"
| "json_dumps (JFloat r) = r"
| "json_dumps (JString s) = encode_string s"
| "json_dumps (JArray items) = ''['' @ join '', '' (map json_dumps items) @ '']''"
| "json_dumps (JObject members) =
     ''{'' @ join '', '' (map (\<lambda>kv. encode_string (fst kv) @ '': '' @ json_dumps (snd kv)) members)
       @ ''}''"

text \<open>
  The search provider: \<^verbatim>\<open>tavily_client.search(query)\<close> returns a dict or raises.
  Standard output is the list of the texts printed so far.
\<close>

type_synonym tavily = "string \<Rightarrow> (string \<times> json) list result"

definition search_header :: "string \<Rightarrow> string" where
  "search_header query = ''Web Search Results for '' @ [CHR 0x27] @ query @ [CHR 0x27] @ '':''"

definition web_search :: "tavily \<Rightarrow> string \<Rightarrow> string list \<Rightarrow> string result \<times> string list" where
  "web_search tavily_search query stdout =
     (case tavily_search query of
        Inl e \<Rightarrow> (Inl e, stdout)
      | Inr search_response \<Rightarrow>
          (let results = json_dumps (dict_get search_response ''results'' (JArray []))
           in (Inr results, stdout @ [search_header query, results])))"


section \<open>The backend adapters\<close>

text \<open>
  Each adapter is the record of the attributes its methods read or assign, and each
  method is a function from the state to its outcome and the state it leaves.  What a
  vendor library or a remote provider does is a parameter of the method: a function that
  returns or raises.  \<^verbatim>\<open>print\<close> inside \<^verbatim>\<open>chat\<close> and \<^verbatim>\<open>clear_chat\<close> writes to
  standard output only and is left out.
\<close>

definition sorry_message :: string where
  "sorry_message = ''Sorry, I encountered an error processing your request.''"

subsection \<open>\<^verbatim>\<open>crewai_agent.py\<close>\<close>

record crewai_agent =
  crewai_name :: string
  crewai_messages :: "turn list"

definition crewai_init :: crewai_agent where
  "crewai_init = \<lparr>crewai_name = ''CrewAI Agent'', crewai_messages = []\<rparr>"

text \<open>
  \<open>kickoff query history\<close>: building the task and the crew and \<^verbatim>\<open>crew.kickoff\<close> with
  the inputs \<^verbatim>\<open>query\<close> and \<^verbatim>\<open>history\<close>.  It raises, or returns a response, of
  which the adapter only takes \<^verbatim>\<open>str\<close>: the text it yields, or the exception it raises.
\<close>

type_synonym crew_kickoff = "string \<Rightarrow> turn list \<Rightarrow> string result result"

text \<open>The user's turn is appended before \<^verbatim>\<open>str(response)\<close> is evaluated.\<close>

definition crewai_chat ::
  "crew_kickoff \<Rightarrow> string \<Rightarrow> crewai_agent \<Rightarrow> string result \<times> crewai_agent" where
  "crewai_chat kickoff message s =
     try_except
       (case kickoff message (crewai_messages s) of
          Inl e \<Rightarrow> (Inl e, s)
        | Inr str_response \<Rightarrow>
            (let s1 = s\<lparr>crewai_messages := crewai_messages s @ [user_turn message]\<rparr>
             in case str_response of
                  Inl e \<Rightarrow> (Inl e, s1)
                | Inr text \<Rightarrow>
                    (Inr text,
                     s1\<lparr>crewai_messages := crewai_messages s1 @ [assistant_turn text]\<rparr>)))
       (\<lambda>e s'. (Inr ''System Error: Unable to process request.'', s'))"

definition crewai_clear_chat :: "crewai_agent \<Rightarrow> bool result \<times> crewai_agent" where
  "crewai_clear_chat s =
     try_except (Inr True, s\<lparr>crewai_messages := []\<rparr>) (\<lambda>e s'. (Inr False, s'))"

subsection \<open>\<^verbatim>\<open>openai_agents_sdk_agent.py\<close>\<close>

record sdk_agent =
  sdk_name :: string
  sdk_model :: string
  conversation_history :: "turn list"

definition sdk_init :: sdk_agent where
  "sdk_init =
     \<lparr>sdk_name = ''OpenAI Agents SDK Agent'', sdk_model = ''gpt-4o-mini'',
      conversation_history = []\<rparr>"

text \<open>\<open>run_sync input\<close>: \<^verbatim>\<open>runner.run_sync\<close> and \<^verbatim>\<open>str(result.final_output)\<close>.\<close>

type_synonym sdk_run_sync = "turn list \<Rightarrow> string result"

definition sdk_chat :: "sdk_run_sync \<Rightarrow> string \<Rightarrow> sdk_agent \<Rightarrow> string result \<times> sdk_agent" where
  "sdk_chat run_sync message s =
     try_except
       (let s1 = s\<lparr>conversation_history := conversation_history s @ [user_turn message]\<rparr>
        in case run_sync (conversation_history s1) of
             Inl e \<Rightarrow> (Inl e, s1)
           | Inr response_text \<Rightarrow>
               (Inr response_text,
                s1\<lparr>conversation_history :=
                     conversation_history s1 @ [assistant_turn response_text]\<rparr>))
       (\<lambda>e s'. (Inr sorry_message, s'))"

definition sdk_clear_chat :: "sdk_agent \<Rightarrow> bool result \<times> sdk_agent" where
  "sdk_clear_chat s =
     try_except (Inr True, s\<lparr>conversation_history := []\<rparr>) (\<lambda>e s'. (Inr False, s'))"

subsection \<open>\<^verbatim>\<open>openai_responses_agent.py\<close>\<close>

record responses_agent =
  responses_name :: string
  responses_model :: string
  system_instructions :: string
  previous_response_id :: "string option"

text \<open>The instructions are joined from the prompt module, which is a parameter here.\<close>

definition responses_init :: "string \<Rightarrow> string \<Rightarrow> responses_agent" where
  "responses_init model instructions =
     \<lparr>responses_name = ''OpenAI Responses API Agent'', responses_model = model,
      system_instructions = instructions, previous_response_id = None\<rparr>"

text \<open>
  An item of the input of a request is the user's message or the output of a function
  call.  An item of the output of a response is a function call or anything else.  The
  arguments of a function call are a text; they are represented by what
  \<^verbatim>\<open>json.loads\<close> makes of it: nothing to load, a decoding error, a dict (of which only
  the string under \<^verbatim>\<open>query\<close> is read), or a value that is not a dict.
\<close>

datatype input_item = UserMessage string | FunctionCallOutput string string

datatype tool_arguments =
    NoArguments
  | MalformedArguments
  | DictArguments "string option"
  | NotADict

datatype output_item = FunctionCall string tool_arguments string | OtherOutput

record response =
  response_id :: string
  response_output :: "output_item list"
  response_output_text :: string

text \<open>The request of \<^verbatim>\<open>client.responses.create\<close>; the tool schemas are constant.\<close>

record request =
  req_model :: string
  req_instructions :: string
  req_input :: "input_item list"
  req_previous_response_id :: "string option"

record responses_env =
  env_create :: "request \<Rightarrow> response result"
  env_now :: clock_reading
  env_tavily :: tavily

text \<open>\<^verbatim>\<open>function_args\<close>: the loaded arguments, an empty dict when there is nothing to
  load or the text does not decode.\<close>

definition function_args :: "tool_arguments \<Rightarrow> tool_arguments" where
  "function_args arguments =
     (case arguments of
        NoArguments \<Rightarrow> DictArguments None
      | MalformedArguments \<Rightarrow> DictArguments None
      | other \<Rightarrow> other)"

definition call_tool :: "responses_env \<Rightarrow> string \<Rightarrow> tool_arguments \<Rightarrow> string result" where
  "call_tool env tool_name tool_input =
     (if tool_name = ''date'' then Inr (date_tool (env_now env))
      else if tool_name = ''web_search'' then
        (case tool_input of
           DictArguments q \<Rightarrow>
             fst (web_search (env_tavily env) (case q of None \<Rightarrow> [] | Some query \<Rightarrow> query) [])
         | _ \<Rightarrow> Inl (Exn AttributeError ''object has no attribute get''))
      else Inr ''Unsupported tool.'')"

definition is_function_call :: "output_item \<Rightarrow> bool" where
  "is_function_call item = (case item of FunctionCall n a c \<Rightarrow> True | OtherOutput \<Rightarrow> False)"

fun tool_results :: "responses_env \<Rightarrow> output_item list \<Rightarrow> input_item list result" where
  "tool_results env [] = Inr []"
| "tool_results env (OtherOutput # items) = tool_results env items"
| "tool_results env (FunctionCall function_name arguments call_id # items) =
     (case call_tool env function_name (function_args arguments) of
        Inl e \<Rightarrow> Inl e
      | Inr result \<Rightarrow>
          (case tool_results env items of
             Inl e \<Rightarrow> Inl e
           | Inr rest \<Rightarrow> Inr (FunctionCallOutput call_id result # rest)))"

definition process_response ::
  "responses_env \<Rightarrow> responses_agent \<Rightarrow> response \<Rightarrow> input_item list \<Rightarrow>
     (string \<times> string \<times> input_item list) result" where
  "process_response env s resp input_items =
     (if \<not> list_ex is_function_call (response_output resp)
      then Inr (response_output_text resp, response_id resp, input_items)
      else
        (case tool_results env (response_output resp) of
           Inl e \<Rightarrow> Inl e
         | Inr results \<Rightarrow>
             (case env_create env
                     \<lparr>req_model = responses_model s, req_instructions = system_instructions s,
                      req_input = results, req_previous_response_id = Some (response_id resp)\<rparr> of
                Inl e \<Rightarrow> Inl e
              | Inr follow_up \<Rightarrow>
                  Inr (response_output_text follow_up, response_id follow_up, input_items @ results))))"

text \<open>\<^verbatim>\<open>if self.previous_response_id:\<close> is false for \<^verbatim>\<open>None\<close> and for the empty text.\<close>

definition truthy :: "string option \<Rightarrow> bool" where
  "truthy v = (case v of None \<Rightarrow> False | Some t \<Rightarrow> t \<noteq> [])"

definition responses_chat ::
  "responses_env \<Rightarrow> string \<Rightarrow> responses_agent \<Rightarrow> string result \<times> responses_agent" where
  "responses_chat env message s =
     try_except
       (let input_item = UserMessage message;
            created =
              (if truthy (previous_response_id s)
               then env_create env
                      \<lparr>req_model = responses_model s, req_instructions = system_instructions s,
                       req_input = [input_item],
                       req_previous_response_id = previous_response_id s\<rparr>
               else env_create env
                      \<lparr>req_model = responses_model s, req_instructions = system_instructions s,
                       req_input = [input_item], req_previous_response_id = None\<rparr>)
        in case created of
             Inl e \<Rightarrow> (Inl e, s)
           | Inr resp \<Rightarrow>
               (case process_response env s resp [input_item] of
                  Inl e \<Rightarrow> (Inl e, s)
                | Inr (response_text, new_response_id, items) \<Rightarrow>
                    (Inr response_text, s\<lparr>previous_response_id := Some new_response_id\<rparr>)))
       (\<lambda>e s'. (Inr sorry_message, s'))"

definition responses_clear_chat :: "responses_agent \<Rightarrow> bool result \<times> responses_agent" where
  "responses_clear_chat s =
     try_except (Inr True, s\<lparr>previous_response_id := None\<rparr>) (\<lambda>e s'. (Inr False, s'))"

subsection \<open>\<^verbatim>\<open>langgraph_agent.py\<close>\<close>

text \<open>
  The checkpointer keeps one checkpoint per thread, under the text of the thread id.
  \<open>'c\<close> is whatever a checkpoint holds.  The \<^verbatim>\<open>content\<close> of a message is a text or
  a list of content blocks.  An event of the stream has no \<^verbatim>\<open>messages\<close> (or is
  empty), or has a list of messages, each with or without a \<^verbatim>\<open>content\<close>.
\<close>

datatype message_content = TextContent string | BlockContent "json list"

record 'c langgraph_agent =
  langgraph_name :: string
  thread_id :: int
  memory :: "string \<Rightarrow> 'c option"

definition langgraph_init :: "'c langgraph_agent" where
  "langgraph_init = \<lparr>langgraph_name = ''LangGraph Agent'', thread_id = 1, memory = Map.empty\<rparr>"

type_synonym graph_event = "message_content option list option"

text \<open>
  \<open>stream checkpoint message\<close>: \<^verbatim>\<open>graph.stream\<close> on the thread whose checkpoint is
  \<open>checkpoint\<close>: the events it yields, the exception it raises after them if any, and
  the checkpoint it leaves for that thread.
\<close>

type_synonym 'c graph_stream =
  "'c option \<Rightarrow> string \<Rightarrow> (graph_event list \<times> exn option) \<times> 'c option"

definition inc_thread_id :: "'c langgraph_agent \<Rightarrow> int \<times> 'c langgraph_agent" where
  "inc_thread_id s = (let new_thread_id = thread_id s + 1 in (new_thread_id, s\<lparr>thread_id := new_thread_id\<rparr>))"

text \<open>
  The loop over the events; \<^verbatim>\<open>event["messages"][-1]\<close> raises on an empty list.  The
  content of the last message is kept as it is.
\<close>

fun full_response :: "graph_event list \<Rightarrow> message_content \<Rightarrow> message_content result" where
  "full_response [] acc = Inr acc"
| "full_response (None # events) acc = full_response events acc"
| "full_response (Some msgs # events) acc =
     (if msgs = [] then Inl (Exn IndexError ''list index out of range'')
      else (case last msgs of
              Some c \<Rightarrow> full_response events c
            | None \<Rightarrow> full_response events acc))"

text \<open>\<^verbatim>\<open>chat\<close> returns \<^verbatim>\<open>full_response\<close> without converting it.\<close>

definition langgraph_chat ::
  "'c graph_stream \<Rightarrow> string \<Rightarrow> 'c langgraph_agent \<Rightarrow>
     message_content result \<times> 'c langgraph_agent" where
  "langgraph_chat stream message s =
     try_except
       (let thread = py_str_int (thread_id s);
            ((events, raised), checkpoint) = stream (memory s thread) message;
            s1 = s\<lparr>memory := (memory s)(thread := checkpoint)\<rparr>
        in case full_response events (TextContent []) of
             Inl e \<Rightarrow> (Inl e, s1)
           | Inr reply \<Rightarrow>
               (case raised of
                  Some e \<Rightarrow> (Inl e, s1)
                | None \<Rightarrow> (Inr reply, s1)))
       (\<lambda>e s'. (Inr (TextContent sorry_message), s'))"

definition langgraph_clear_chat :: "'c langgraph_agent \<Rightarrow> bool result \<times> 'c langgraph_agent" where
  "langgraph_clear_chat s =
     try_except (Inr True, snd (inc_thread_id s)) (\<lambda>e s'. (Inr False, s'))"


text \<open>
  A life of a LangGraph adapter: the calls made on it since its construction, each chat
  with the behaviour of the graph at that call.
\<close>

datatype 'c langgraph_call = Chat "'c graph_stream" string | ClearChat

fun langgraph_run :: "'c langgraph_call list \<Rightarrow> 'c langgraph_agent \<Rightarrow> 'c langgraph_agent" where
  "langgraph_run [] s = s"
| "langgraph_run (Chat stream message # calls) s =
     langgraph_run calls (snd (langgraph_chat stream message s))"
| "langgraph_run (ClearChat # calls) s = langgraph_run calls (snd (langgraph_clear_chat s))"

text \<open>Every checkpoint is of a thread from 1 to the current one.\<close>

definition threads_used :: "'c langgraph_agent \<Rightarrow> bool" where
  "threads_used s =
     (1 \<le> thread_id s \<and>
      (\<forall>k. memory s k \<noteq> None \<longrightarrow> (\<exists>i. 1 \<le> i \<and> i \<le> thread_id s \<and> k = py_str_int i)))"

subsection \<open>\<^verbatim>\<open>google_adk_agent.py\<close>\<close>

text \<open>
  The session service keeps the events of each session under its id; \<open>'e\<close> is
  whatever an event of a session is.  \<^verbatim>\<open>create_session\<close> makes a session with no
  events, or raises; \<^verbatim>\<open>uuid.uuid4()\<close> is a parameter.
\<close>

record 'e adk_agent =
  adk_name :: string
  adk_user_id :: string
  adk_session_id :: string
  adk_sessions :: "string \<Rightarrow> 'e list option"

text \<open>The constructor: it raises when creating the session raises.\<close>

definition adk_fresh :: "string \<Rightarrow> 'e adk_agent" where
  "adk_fresh new_uuid =
     \<lparr>adk_name = ''Google ADK Agent'', adk_user_id = ''default_user'',
      adk_session_id = new_uuid, adk_sessions = [new_uuid \<mapsto> []]\<rparr>"

definition adk_init :: "string \<Rightarrow> exn option \<Rightarrow> 'e adk_agent result" where
  "adk_init new_uuid created =
     (case created of
        Some e \<Rightarrow> Inl e
      | None \<Rightarrow> Inr (adk_fresh new_uuid))"

text \<open>
  An event of a run: whether it is a final response, its \<^verbatim>\<open>text\<close> if it has one, and
  the parts of its content: no such attribute, \<^verbatim>\<open>None\<close>, or a list of parts, each with
  or without a text.
\<close>

datatype event_parts = NoParts | PartsNone | Parts "string option list"

record adk_event =
  is_final_response :: bool
  event_text :: "string option"
  event_content_parts :: event_parts

text \<open>
  \<open>run_async session message\<close>: \<^verbatim>\<open>asyncio.run\<close> of the loop over
  \<^verbatim>\<open>runner.run_async\<close> on the session whose events are \<open>session\<close>: the events it
  yields, the exception it raises after them if any, and the events it leaves in that
  session.
\<close>

type_synonym 'e adk_run_async =
  "'e list option \<Rightarrow> string \<Rightarrow> (adk_event list \<times> exn option) \<times> 'e list option"

definition part_texts :: "string option list \<Rightarrow> string list" where
  "part_texts ps = concat (map (\<lambda>p. case p of None \<Rightarrow> [] | Some t \<Rightarrow> (if t \<noteq> [] then [t] else [])) ps)"

fun final_text :: "adk_event list \<Rightarrow> string \<Rightarrow> string result" where
  "final_text [] response_text = Inr response_text"
| "final_text (event # events) response_text =
     (if is_final_response event then
        (if truthy (event_text event) then
           final_text events (case event_text event of Some t \<Rightarrow> t | None \<Rightarrow> response_text)
         else
           (case event_content_parts event of
              NoParts \<Rightarrow> final_text events response_text
            | PartsNone \<Rightarrow> Inl (Exn TypeError ''NoneType object is not iterable'')
            | Parts ps \<Rightarrow> final_text events (join [] (part_texts ps))))
      else final_text events response_text)"

definition adk_chat ::
  "'e adk_run_async \<Rightarrow> string \<Rightarrow> 'e adk_agent \<Rightarrow> string result \<times> 'e adk_agent" where
  "adk_chat run_async message s =
     try_except
       (let session = adk_session_id s;
            ((events, raised), left) = run_async (adk_sessions s session) message;
            s1 = s\<lparr>adk_sessions := (adk_sessions s)(session := left)\<rparr>
        in case final_text events [] of
             Inl e \<Rightarrow> (Inl e, s1)
           | Inr result \<Rightarrow>
               (case raised of
                  Some e \<Rightarrow> (Inl e, s1)
                | None \<Rightarrow>
                    (Inr (if result \<noteq> [] then result else ''Agent generated an empty response.''),
                     s1)))
       (\<lambda>e s'. (Inr (''System Error: '' @ exn_text e), s'))"

text \<open>The new id is assigned before the session is created.\<close>

definition adk_clear_chat ::
  "string \<Rightarrow> exn option \<Rightarrow> 'e adk_agent \<Rightarrow> bool result \<times> 'e adk_agent" where
  "adk_clear_chat new_uuid created s =
     try_except
       (let s1 = s\<lparr>adk_session_id := new_uuid\<rparr>
        in case created of
             Some e \<Rightarrow> (Inl e, s1)
           | None \<Rightarrow> (Inr True, s1\<lparr>adk_sessions := (adk_sessions s1)(new_uuid \<mapsto> [])\<rparr>))
       (\<lambda>e s'. (Inr False, s'))"

subsection \<open>\<^verbatim>\<open>smolagents_agent.py\<close>\<close>

text \<open>
  The conversation is the list of steps in the memory of the library's agent; \<open>'m\<close> is
  whatever a step is.  \<open>run memory task\<close> is \<^verbatim>\<open>agent.run(task, reset=False)\<close>
  and \<^verbatim>\<open>str\<close> of its response; \<^verbatim>\<open>memory.reset()\<close> empties the steps, or raises.
\<close>

record 'm smol_agent =
  smol_name :: string
  smol_memory :: "'m list"

definition smol_init :: "'m smol_agent" where
  "smol_init = \<lparr>smol_name = ''SmolAgents Agent'', smol_memory = []\<rparr>"

type_synonym 'm agent_run = "'m list \<Rightarrow> string \<Rightarrow> string result \<times> 'm list"

definition smol_chat ::
  "'m agent_run \<Rightarrow> string \<Rightarrow> 'm smol_agent \<Rightarrow> string result \<times> 'm smol_agent" where
  "smol_chat run message s =
     try_except
       (let (response, left) = run (smol_memory s) message
        in (response, s\<lparr>smol_memory := left\<rparr>))
       (\<lambda>e s'. (Inr (''System Error: '' @ exn_text e), s'))"

definition smol_clear_chat :: "exn option \<Rightarrow> 'm smol_agent \<Rightarrow> bool result \<times> 'm smol_agent" where
  "smol_clear_chat reset s =
     try_except
       (case reset of
          Some e \<Rightarrow> (Inl e, s)
        | None \<Rightarrow> (Inr True, s\<lparr>smol_memory := []\<rparr>))
       (\<lambda>e s'. (Inr False, s'))"

subsection \<open>\<^verbatim>\<open>llama_index_agent.py\<close>\<close>

text \<open>
  The conversation is the content of the library's memory buffer.  The coroutine
  \<^verbatim>\<open>_chat_async\<close> is run by \<^verbatim>\<open>asyncio.run\<close> or, when that refuses because a loop is
  running, by \<^verbatim>\<open>run_until_complete\<close> on the current loop; both are parameters, with
  \<^verbatim>\<open>str\<close> of the result.
\<close>

record 'm llama_agent =
  llama_name :: string
  llama_memory :: "'m list"

definition llama_init :: "'m llama_agent" where
  "llama_init = \<lparr>llama_name = ''Llama-Index Agent'', llama_memory = []\<rparr>"

record 'm llama_env =
  asyncio_run :: "'m agent_run"
  run_until_complete :: "'m agent_run"

definition running_loop_text :: string where
  "running_loop_text = ''asyncio.run() cannot be called from a running event loop''"

definition llama_chat ::
  "'m llama_env \<Rightarrow> string \<Rightarrow> 'm llama_agent \<Rightarrow> string result \<times> 'm llama_agent" where
  "llama_chat env message s =
     try_except
       (let (first, left) = asyncio_run env (llama_memory s) message;
            s1 = s\<lparr>llama_memory := left\<rparr>
        in case first of
             Inr result \<Rightarrow> (Inr result, s1)
           | Inl e \<Rightarrow>
               (if exn_class_of e = RuntimeError then
                  (if sublist running_loop_text (exn_text e) then
                     (let (second, left') = run_until_complete env (llama_memory s1) message
                      in (second, s1\<lparr>llama_memory := left'\<rparr>))
                   else (Inl e, s1))
                else (Inl e, s1)))
       (\<lambda>e s'. (Inr sorry_message, s'))"

definition llama_clear_chat :: "exn option \<Rightarrow> 'm llama_agent \<Rightarrow> bool result \<times> 'm llama_agent" where
  "llama_clear_chat reset s =
     try_except
       (case reset of
          Some e \<Rightarrow> (Inl e, s)
        | None \<Rightarrow> (Inr True, s\<lparr>llama_memory := []\<rparr>))
       (\<lambda>e s'. (Inr False, s'))"

section \<open>The host: \<^verbatim>\<open>agent-ui.py\<close>\<close>

subsection \<open>Discovery\<close>

text \<open>
  What the host looks at in an object: its attribute \<^verbatim>\<open>name\<close> if it has one, and its
  attribute \<^verbatim>\<open>chat\<close>.  \<open>'b\<close> is the rest of the object, the backend's own state.
\<close>

datatype chat_attr = NoChat | ChatNotCallable | ChatCallable

record 'b agent_instance =
  inst_name :: "string option"
  inst_chat :: chat_attr
  inst_backend :: 'b

text \<open>
  The attribute \<^verbatim>\<open>Agent\<close> of a module: absent, not callable, or callable, with the
  outcome of calling it: an exception or the object returned, which may be \<^verbatim>\<open>None\<close>.
\<close>

datatype 'b py_module =
    NoAgent
  | AgentNotCallable
  | AgentClass "'b agent_instance option result"

definition is_valid_agent_instance :: "'b agent_instance option \<Rightarrow> bool" where
  "is_valid_agent_instance obj =
     (case obj of
        None \<Rightarrow> False
      | Some inst \<Rightarrow>
          (if inst_name inst = None then False
           else if inst_chat inst \<noteq> ChatCallable then False
           else True))"

definition safe_get_agent_instance :: "'b py_module \<Rightarrow> 'b agent_instance option" where
  "safe_get_agent_instance module =
     (case module of
        NoAgent \<Rightarrow> None
      | AgentNotCallable \<Rightarrow> None
      | AgentClass constructed \<Rightarrow>
          (case constructed of
             Inl e \<Rightarrow> None
           | Inr inst \<Rightarrow> (if is_valid_agent_instance inst then inst else None)))"

text \<open>\<^verbatim>\<open>d[key] = value\<close> on a dict in insertion order.\<close>

fun dict_set :: "('k \<times> 'v) list \<Rightarrow> 'k \<Rightarrow> 'v \<Rightarrow> ('k \<times> 'v) list" where
  "dict_set [] key v = [(key, v)]"
| "dict_set ((k, w) # d) key v = (if k = key then (k, v) # d else (k, w) # dict_set d key v)"

definition invalid_agent :: exn where
  "invalid_agent = Exn AttributeError ''Invalid Agent implementation''"

text \<open>\<^verbatim>\<open>file[:-3]\<close>.\<close>

definition module_name_of :: "string \<Rightarrow> string" where
  "module_name_of file = take (length file - 3) file"

text \<open>The body of the \<^verbatim>\<open>try\<close> for one file, and the loop over the listing.\<close>

definition load_candidate ::
  "(string \<Rightarrow> 'b py_module result) \<Rightarrow> string \<Rightarrow> (string \<times> string) list \<Rightarrow>
     unit result \<times> (string \<times> string) list" where
  "load_candidate import_module module_name agents =
     (case import_module module_name of
        Inl e \<Rightarrow> (Inl e, agents)
      | Inr module \<Rightarrow>
          (case safe_get_agent_instance module of
             None \<Rightarrow> (Inl invalid_agent, agents)
           | Some temp_agent \<Rightarrow>
               (case inst_name temp_agent of
                  None \<Rightarrow> (Inl (Exn AttributeError ''name''), agents)
                | Some n \<Rightarrow> (Inr (), dict_set agents module_name n))))"

fun available_agents_loop ::
  "(string \<Rightarrow> 'b py_module result) \<Rightarrow> string list \<Rightarrow> (string \<times> string) list \<Rightarrow>
     (string \<times> string) list" where
  "available_agents_loop import_module [] agents = agents"
| "available_agents_loop import_module (file # files) agents =
     available_agents_loop import_module files
       (if suffix ''_agent.py'' file then
          snd (try_except
                 (load_candidate import_module (module_name_of file) agents)
                 (\<lambda>e agents'. (Inr (), agents')))
        else agents)"

text \<open>\<open>listdir\<close> is what \<^verbatim>\<open>os.listdir('.')\<close> returns, in the order it returns it.\<close>

definition get_available_agents ::
  "string list \<Rightarrow> (string \<Rightarrow> 'b py_module result) \<Rightarrow> (string \<times> string) list" where
  "get_available_agents listdir import_module = available_agents_loop import_module listdir []"

text \<open>
  A candidate as the discovery is meant to judge it, from the outcome of importing its
  module: accepted when the module has a callable \<^verbatim>\<open>Agent\<close> whose construction
  returns an object with a \<^verbatim>\<open>name\<close> and a callable \<^verbatim>\<open>chat\<close>; and the name it
  is then shown under.
\<close>

definition candidate_accepted :: "'b py_module result \<Rightarrow> bool" where
  "candidate_accepted imported =
     (case imported of
        Inr (AgentClass (Inr (Some inst))) \<Rightarrow> inst_name inst \<noteq> None \<and> inst_chat inst = ChatCallable
      | _ \<Rightarrow> False)"

definition candidate_name :: "'b py_module result \<Rightarrow> string" where
  "candidate_name imported =
     (case imported of
        Inr (AgentClass (Inr (Some inst))) \<Rightarrow> (case inst_name inst of Some n \<Rightarrow> n | None \<Rightarrow> [])
      | _ \<Rightarrow> [])"

definition is_candidate :: "(string \<Rightarrow> 'b py_module result) \<Rightarrow> string \<Rightarrow> bool" where
  "is_candidate import_module file =
     (suffix ''_agent.py'' file \<and> candidate_accepted (import_module (module_name_of file)))"

definition discovered_entry ::
  "(string \<Rightarrow> 'b py_module result) \<Rightarrow> string \<Rightarrow> string \<times> string" where
  "discovered_entry import_module file =
     (module_name_of file, candidate_name (import_module (module_name_of file)))"

subsection \<open>The session\<close>

text \<open>The three keys of the session state that the script uses; \<open>None\<close> is an absent key.\<close>

record 'b session_state =
  current_agent_type :: "string option"
  agent :: "'b agent_instance option"
  messages :: "turn list option"

text \<open>Lines 72 to 81: the selection is recorded, and a change of it resets the session.\<close>

definition switch_block :: "string \<Rightarrow> 'b session_state \<Rightarrow> 'b session_state" where
  "switch_block selected_agent s =
     (let s1 = (if current_agent_type s = None
                then s\<lparr>current_agent_type := Some selected_agent\<rparr> else s)
      in if current_agent_type s1 \<noteq> Some selected_agent then
           (let s2 = s1\<lparr>current_agent_type := Some selected_agent\<rparr>;
                s3 = (if agent s2 \<noteq> None then s2\<lparr>agent := None\<rparr> else s2)
            in if messages s3 \<noteq> None then s3\<lparr>messages := Some []\<rparr> else s3)
         else s1)"

text \<open>Lines 84 to 93: without an instance one is constructed; a failure is only shown.\<close>

definition init_block ::
  "(string \<Rightarrow> 'b py_module result) \<Rightarrow> string \<Rightarrow> 'b session_state \<Rightarrow> 'b session_state" where
  "init_block import_module selected_agent s =
     (if agent s = None then
        snd (try_except
               (case import_module selected_agent of
                  Inl e \<Rightarrow> (Inl e, s)
                | Inr module \<Rightarrow>
                    (case safe_get_agent_instance module of
                       None \<Rightarrow> (Inl invalid_agent, s)
                     | Some agent_instance \<Rightarrow> (Inr (), s\<lparr>agent := Some agent_instance\<rparr>)))
               (\<lambda>e s'. (Inr (), s')))
      else s)"

text \<open>
  Lines 72 to 100 in one run of the script, for the selection of the sidebar: the state
  it leaves, and whether the script stopped for want of an instance.
\<close>

definition select_agent ::
  "(string \<Rightarrow> 'b py_module result) \<Rightarrow> string \<Rightarrow> 'b session_state \<Rightarrow> 'b session_state \<times> bool" where
  "select_agent import_module selected_agent s =
     (let s1 = switch_block selected_agent s;
          s2 = init_block import_module selected_agent s1
      in if agent s2 = None then (s2, True)
         else ((if messages s2 = None then s2\<lparr>messages := Some []\<rparr> else s2), False))"

text \<open>The instance that lines 86 to 90 obtain for a module name, if any.\<close>

definition load_agent :: "(string \<Rightarrow> 'b py_module result) \<Rightarrow> string \<Rightarrow> 'b agent_instance option" where
  "load_agent import_module selected_agent =
     (case import_module selected_agent of
        Inl e \<Rightarrow> None
      | Inr module \<Rightarrow> safe_get_agent_instance module)"

text \<open>The history the host shows: nothing when the key is absent.\<close>

definition visible_history :: "'b session_state \<Rightarrow> turn list" where
  "visible_history s = (case messages s of None \<Rightarrow> [] | Some turns \<Rightarrow> turns)"

text \<open>
  Lines 121 to 125: the call of the instance's \<^verbatim>\<open>chat\<close> (a parameter: what it returns
  or raises, and the backend state it leaves) and \<^verbatim>\<open>str\<close> of its response.
\<close>

definition response_text ::
  "(string \<Rightarrow> 'b \<Rightarrow> string result \<times> 'b) \<Rightarrow> string \<Rightarrow> 'b \<Rightarrow> string result \<times> 'b" where
  "response_text agent_chat user_input backend =
     try_except (agent_chat user_input backend) (\<lambda>e b. (Inr ''Error: Something went wrong.'', b))"

section \<open>Properties of the tool library\<close>

subsection \<open>The format of \<^verbatim>\<open>date_tool\<close>\<close>
















section \<open>Properties of the adapters\<close>

text \<open>
  Claim C10.  In the CrewAI, OpenAI Agents SDK and OpenAI Responses adapters
  \<open>clear_chat\<close> returns \<^verbatim>\<open>True\<close> on every call, from every state: the body of its
  \<^verbatim>\<open>try\<close> is one assignment, so the handler that returns \<^verbatim>\<open>False\<close> never runs.
\<close>

theorem clear_chat_assignment_returns_true:
  "fst (crewai_clear_chat c) = Inr True
   \<and> fst (sdk_clear_chat a) = Inr True
   \<and> fst (responses_clear_chat r) = Inr True"
  by (simp add: crewai_clear_chat_def sdk_clear_chat_def responses_clear_chat_def try_except_def)

subsection \<open>Totality of \<open>chat\<close>\<close>

lemma try_except_returns:
  assumes "\<And>e s. \<exists>v s'. handler e s = (Inr v, s')"
  shows "\<exists>v s'. try_except body handler = (Inr v, s')"
proof (cases body)
  case (Pair r s)
  show ?thesis
  proof (cases r)
    case (Inl e)
    with Pair assms [of e s] show ?thesis by (simp add: try_except_def)
  next
    case (Inr v)
    with Pair show ?thesis by (simp add: try_except_def)
  qed
qed

lemma crewai_chat_returns: "\<exists>r s'. crewai_chat kickoff message s = (Inr r, s')"
  unfolding crewai_chat_def by (rule try_except_returns) simp

lemma sdk_chat_returns: "\<exists>r s'. sdk_chat run_sync message s = (Inr r, s')"
  unfolding sdk_chat_def by (rule try_except_returns) simp

lemma responses_chat_returns: "\<exists>r s'. responses_chat env message s = (Inr r, s')"
  unfolding responses_chat_def by (rule try_except_returns) simp

lemma langgraph_chat_returns: "\<exists>r s'. langgraph_chat stream message s = (Inr r, s')"
  unfolding langgraph_chat_def by (rule try_except_returns) simp

lemma adk_chat_returns: "\<exists>r s'. adk_chat run_async message s = (Inr r, s')"
  unfolding adk_chat_def by (rule try_except_returns) simp

lemma smol_chat_returns: "\<exists>r s'. smol_chat run message s = (Inr r, s')"
  unfolding smol_chat_def by (rule try_except_returns) simp

lemma llama_chat_returns: "\<exists>r s'. llama_chat env message s = (Inr r, s')"
  unfolding llama_chat_def by (rule try_except_returns) simp

lemma response_text_returns: "\<exists>r b'. response_text agent_chat user_input backend = (Inr r, b')"
  unfolding response_text_def by (rule try_except_returns) simp

text \<open>
  No \<open>chat\<close> raises: in each of the seven adapters it returns a value for every message
  (the empty one and any long one included), every state and every behaviour of the
  provider, a failing one included, since whatever the body of the \<^verbatim>\<open>try\<close> raises,
  the handler returns a text.  The same holds for the call of \<open>chat\<close> in the host.  In
  six adapters the value is a text, the result of \<^verbatim>\<open>str\<close> or a text attribute.
\<close>

lemma chat_never_raises:
  "(\<exists>r s'. crewai_chat kickoff message (c :: crewai_agent) = (Inr r, s'))
   \<and> (\<exists>r s'. sdk_chat run_sync message (a :: sdk_agent) = (Inr r, s'))
   \<and> (\<exists>r s'. responses_chat env message (p :: responses_agent) = (Inr r, s'))
   \<and> (\<exists>r s'. langgraph_chat stream message (g :: 'c langgraph_agent) = (Inr r, s'))
   \<and> (\<exists>r s'. adk_chat run_async message (k :: 'e adk_agent) = (Inr r, s'))
   \<and> (\<exists>r s'. smol_chat run message (m :: 'm smol_agent) = (Inr r, s'))
   \<and> (\<exists>r s'. llama_chat lenv message (l :: 'n llama_agent) = (Inr r, s'))
   \<and> (\<exists>r b'. response_text agent_chat message (backend :: 'b) = (Inr r, b'))"
  by (intro conjI crewai_chat_returns sdk_chat_returns responses_chat_returns
      langgraph_chat_returns adk_chat_returns smol_chat_returns llama_chat_returns
      response_text_returns)

text \<open>
  Claim C2.  The value that \<open>chat\<close> returns is not a text in one adapter: the LangGraph
  adapter returns the content of the last message as it is, here the list of content
  blocks of a reply, where its siblings return \<^verbatim>\<open>str\<close> of the reply.
\<close>

theorem langgraph_chat_returns_content_blocks:
  "fst (langgraph_chat
          (\<lambda>checkpoint message.
             (([Some [Some (TextContent message), Some (BlockContent [JString ''Hello'']) ]], None),
              checkpoint))
          ''hi'' (langgraph_init :: unit langgraph_agent))
     = Inr (BlockContent [JString ''Hello''])"
  by (simp add: langgraph_chat_def langgraph_init_def try_except_def Let_def)

subsection \<open>What \<open>chat\<close> returns on a fault\<close>

text \<open>The sibling adapters answer a fault of the provider with a fixed text.\<close>

lemma crewai_chat_fault_text:
  "kickoff message (crewai_messages c) = Inl e \<Longrightarrow>
   fst (crewai_chat kickoff message c) = Inr ''System Error: Unable to process request.''"
  by (simp add: crewai_chat_def try_except_def)

lemma sdk_chat_fault_text:
  "run_sync (conversation_history a @ [user_turn message]) = Inl e \<Longrightarrow>
   fst (sdk_chat run_sync message a) = Inr sorry_message"
  by (simp add: sdk_chat_def try_except_def Let_def)

lemma smol_chat_fault_text:
  "fst (run (smol_memory m) message) = Inl e \<Longrightarrow>
   fst (smol_chat run message m) = Inr (''System Error: '' @ exn_text e)"
  by (cases "run (smol_memory m) message") (simp add: smol_chat_def try_except_def)

text \<open>
  Claim C1.  The text returned on a fault is not a fixed one in two adapters: in the
  smolagents and the Google ADK adapters it ends with the text of the exception, here one
  that quotes a credential.
\<close>

theorem chat_leaks_exception_text:
  "fst (smol_chat (\<lambda>memory task. (Inl (Exn OtherException ''Incorrect API key provided: sk-test-1234''), memory))
          ''hello'' (smol_init :: unit smol_agent))
     = Inr ''System Error: Incorrect API key provided: sk-test-1234''
   \<and> fst (adk_chat (\<lambda>session message. (([], Some (Exn OtherException ''Incorrect API key provided: sk-test-1234'')), session))
          ''hello'' (adk_fresh ''u0'' :: unit adk_agent))
     = Inr ''System Error: Incorrect API key provided: sk-test-1234''"
  by (simp add: smol_chat_def adk_chat_def try_except_def smol_init_def adk_fresh_def Let_def)

subsection \<open>\<^verbatim>\<open>web_search\<close>\<close>




subsection \<open>Reset and the next chat\<close>

lemma crewai_after_clear:
  "fst (crewai_clear_chat s) = Inr True
   \<and> crewai_messages (snd (crewai_clear_chat s)) = []
   \<and> fst (crewai_chat kickoff message (snd (crewai_clear_chat s)))
       = fst (crewai_chat kickoff message crewai_init)
   \<and> crewai_messages (snd (crewai_chat kickoff message (snd (crewai_clear_chat s))))
       = crewai_messages (snd (crewai_chat kickoff message crewai_init))"
  by (simp add: crewai_clear_chat_def crewai_chat_def crewai_init_def try_except_def Let_def
      split: sum.splits)

lemma sdk_after_clear:
  "fst (sdk_clear_chat s) = Inr True
   \<and> conversation_history (snd (sdk_clear_chat s)) = []
   \<and> fst (sdk_chat run_sync message (snd (sdk_clear_chat s)))
       = fst (sdk_chat run_sync message sdk_init)
   \<and> conversation_history (snd (sdk_chat run_sync message (snd (sdk_clear_chat s))))
       = conversation_history (snd (sdk_chat run_sync message sdk_init))"
  by (simp add: sdk_clear_chat_def sdk_chat_def sdk_init_def try_except_def Let_def
      split: sum.splits)

lemma process_response_cong:
  "responses_model s = responses_model t \<Longrightarrow> system_instructions s = system_instructions t \<Longrightarrow>
   process_response env s resp items = process_response env t resp items"
  by (simp add: process_response_def split: sum.splits)

lemma responses_after_clear:
  "fst (responses_clear_chat s) = Inr True
   \<and> previous_response_id (snd (responses_clear_chat s)) = None
   \<and> fst (responses_chat env message (snd (responses_clear_chat s)))
       = fst (responses_chat env message (responses_init (responses_model s) (system_instructions s)))
   \<and> previous_response_id (snd (responses_chat env message (snd (responses_clear_chat s))))
       = previous_response_id
           (snd (responses_chat env message (responses_init (responses_model s) (system_instructions s))))"
proof -
  let ?c = "snd (responses_clear_chat s)"
  let ?i = "responses_init (responses_model s) (system_instructions s)"
  have c: "?c = s\<lparr>previous_response_id := None\<rparr>"
    by (simp add: responses_clear_chat_def try_except_def)
  have p: "process_response env ?c resp items = process_response env ?i resp items" for resp items
    by (rule process_response_cong) (simp_all add: c responses_init_def)
  have r: "fst (responses_clear_chat s) = Inr True"
    by (simp add: responses_clear_chat_def try_except_def)
  have f: "fst (responses_chat env message ?c) = fst (responses_chat env message ?i)"
    unfolding responses_chat_def p
    by (simp add: c responses_init_def try_except_def truthy_def Let_def
        split: sum.splits prod.splits)
  have g: "previous_response_id (snd (responses_chat env message ?c))
      = previous_response_id (snd (responses_chat env message ?i))"
    unfolding responses_chat_def p
    by (simp add: c responses_init_def try_except_def truthy_def Let_def
        split: sum.splits prod.splits)
  from r c f g show ?thesis by simp
qed

lemma smol_after_clear:
  "fst (smol_clear_chat reset s) = Inr True \<longrightarrow>
     smol_memory (snd (smol_clear_chat reset s)) = []
     \<and> fst (smol_chat run message (snd (smol_clear_chat reset s)))
         = fst (smol_chat run message smol_init)
     \<and> smol_memory (snd (smol_chat run message (snd (smol_clear_chat reset s))))
         = smol_memory (snd (smol_chat run message smol_init))"
  by (cases reset)
    (auto simp add: smol_clear_chat_def smol_chat_def smol_init_def try_except_def Let_def
      split: sum.splits prod.splits)

lemma llama_after_clear:
  "fst (llama_clear_chat reset s) = Inr True \<longrightarrow>
     llama_memory (snd (llama_clear_chat reset s)) = []
     \<and> fst (llama_chat env message (snd (llama_clear_chat reset s)))
         = fst (llama_chat env message llama_init)
     \<and> llama_memory (snd (llama_chat env message (snd (llama_clear_chat reset s))))
         = llama_memory (snd (llama_chat env message llama_init))"
  by (cases reset)
    (auto simp add: llama_clear_chat_def llama_chat_def llama_init_def try_except_def Let_def
      split: sum.splits prod.splits)

lemma adk_after_clear:
  "fst (adk_clear_chat new_uuid created s) = Inr True \<longrightarrow>
     adk_sessions (snd (adk_clear_chat new_uuid created s))
        (adk_session_id (snd (adk_clear_chat new_uuid created s))) = Some []
     \<and> fst (adk_chat run_async message (snd (adk_clear_chat new_uuid created s)))
         = fst (adk_chat run_async message (adk_fresh new_uuid))"
  by (cases created)
    (auto simp add: adk_clear_chat_def adk_chat_def adk_fresh_def try_except_def Let_def
      split: sum.splits prod.splits option.splits)

subsection \<open>The threads of the LangGraph adapter\<close>

lemma digit_char_inj:
  assumes "digit_char a = digit_char b"
  shows "a mod 10 = b mod 10"
proof -
  have d: "distinct ''0123456789''" by simp
  have l: "length ''0123456789'' = 10" by simp
  have "a mod 10 < length ''0123456789''" "b mod 10 < length ''0123456789''"
    unfolding l by simp_all
  with d assms show ?thesis
    unfolding digit_char_def by (simp add: nth_eq_iff_index_eq)
qed

lemma decimal_nonempty: "decimal n \<noteq> []"
  by (subst decimal.simps) simp

lemma decimal_inj: "decimal n = decimal m \<Longrightarrow> n = m"
proof (induction n arbitrary: m rule: decimal.induct)
  case (1 n)
  show ?case
  proof (cases "n < 10")
    case n: True
    show ?thesis
    proof (cases "m < 10")
      case True
      with n "1.prems" have "digit_char n = digit_char m"
        by (simp add: decimal.simps [of n] decimal.simps [of m])
      then have "n mod 10 = m mod 10" by (rule digit_char_inj)
      with n True show ?thesis by simp
    next
      case False
      with n "1.prems" have "decimal (m div 10) = []"
        by (simp add: decimal.simps [of n] decimal.simps [of m])
      with decimal_nonempty show ?thesis by blast
    qed
  next
    case n: False
    show ?thesis
    proof (cases "m < 10")
      case True
      with n "1.prems" have "decimal (n div 10) = []"
        by (simp add: decimal.simps [of n] decimal.simps [of m])
      with decimal_nonempty show ?thesis by blast
    next
      case False
      with n "1.prems" have e: "decimal (n div 10) = decimal (m div 10)"
        and d: "digit_char (n mod 10) = digit_char (m mod 10)"
        by (simp_all add: decimal.simps [of n] decimal.simps [of m])
      from "1.IH" [OF n e] have q: "n div 10 = m div 10" .
      have r: "n mod 10 = m mod 10" using digit_char_inj [OF d] by simp
      have "n = 10 * (n div 10) + n mod 10" by simp
      also have "\<dots> = 10 * (m div 10) + m mod 10" using q r by simp
      also have "\<dots> = m" by simp
      finally show ?thesis .
    qed
  qed
qed

lemma py_str_int_inj:
  assumes "0 \<le> i" "0 \<le> j" "py_str_int i = py_str_int j"
  shows "i = j"
proof -
  from assms have "decimal (nat i) = decimal (nat j)" by (simp add: py_str_int_def)
  then have "nat i = nat j" by (rule decimal_inj)
  with assms(1,2) show ?thesis by simp
qed

lemma threads_used_init: "threads_used langgraph_init"
  by (simp add: threads_used_def langgraph_init_def)

lemma langgraph_chat_unfold:
  assumes "stream (memory s (py_str_int (thread_id s))) message = ((events, raised), checkpoint)"
  shows "langgraph_chat stream message s =
     (case full_response events (TextContent []) of
        Inl e \<Rightarrow> Inr (TextContent sorry_message)
      | Inr reply \<Rightarrow>
          (case raised of Some e \<Rightarrow> Inr (TextContent sorry_message) | None \<Rightarrow> Inr reply),
      s\<lparr>memory := (memory s)(py_str_int (thread_id s) := checkpoint)\<rparr>)"
  using assms
  by (simp add: langgraph_chat_def try_except_def Let_def split: sum.splits option.splits)

lemma langgraph_chat_state:
  "\<exists>checkpoint. snd (langgraph_chat stream message s)
      = s\<lparr>memory := (memory s)(py_str_int (thread_id s) := checkpoint)\<rparr>"
proof -
  obtain events raised checkpoint
    where "stream (memory s (py_str_int (thread_id s))) message = ((events, raised), checkpoint)"
    by (metis surj_pair)
  from langgraph_chat_unfold [where stream = stream and s = s and message = message, OF this]
  have "snd (langgraph_chat stream message s)
      = s\<lparr>memory := (memory s)(py_str_int (thread_id s) := checkpoint)\<rparr>"
    by simp
  then show ?thesis ..
qed

lemma threads_used_chat:
  assumes "threads_used s"
  shows "threads_used (snd (langgraph_chat stream message s))"
proof -
  obtain checkpoint where c: "snd (langgraph_chat stream message s)
      = s\<lparr>memory := (memory s)(py_str_int (thread_id s) := checkpoint)\<rparr>"
    using langgraph_chat_state by blast
  from assms have t: "1 \<le> thread_id s"
    and m: "\<And>k. memory s k \<noteq> None \<Longrightarrow> \<exists>i. 1 \<le> i \<and> i \<le> thread_id s \<and> k = py_str_int i"
    unfolding threads_used_def by blast+
  have "\<exists>i. 1 \<le> i \<and> i \<le> thread_id s \<and> k = py_str_int i"
    if "((memory s)(py_str_int (thread_id s) := checkpoint)) k \<noteq> None" for k
  proof (cases "k = py_str_int (thread_id s)")
    case True
    with t have "1 \<le> thread_id s \<and> thread_id s \<le> thread_id s \<and> k = py_str_int (thread_id s)" by simp
    then show ?thesis ..
  next
    case False
    with that have "memory s k \<noteq> None" by simp
    then show ?thesis by (rule m)
  qed
  with t show ?thesis
    unfolding c threads_used_def by simp
qed

lemma langgraph_clear_chat_state:
  "langgraph_clear_chat s = (Inr True, s\<lparr>thread_id := thread_id s + 1\<rparr>)"
  by (simp add: langgraph_clear_chat_def inc_thread_id_def try_except_def Let_def)

lemma threads_used_clear:
  assumes "threads_used s"
  shows "threads_used (snd (langgraph_clear_chat s))"
proof -
  from assms have t: "1 \<le> thread_id s"
    and m: "\<And>k. memory s k \<noteq> None \<Longrightarrow> \<exists>i. 1 \<le> i \<and> i \<le> thread_id s \<and> k = py_str_int i"
    unfolding threads_used_def by blast+
  have "\<exists>i. 1 \<le> i \<and> i \<le> thread_id s + 1 \<and> k = py_str_int i" if "memory s k \<noteq> None" for k
  proof -
    from m [OF that] obtain i where "1 \<le> i" "i \<le> thread_id s" "k = py_str_int i" by blast
    then have "1 \<le> i \<and> i \<le> thread_id s + 1 \<and> k = py_str_int i" by simp
    then show ?thesis ..
  qed
  with t show ?thesis
    unfolding langgraph_clear_chat_state threads_used_def by simp
qed

lemma threads_used_run:
  "threads_used s \<Longrightarrow> threads_used (langgraph_run calls s)"
proof (induction calls arbitrary: s)
  case Nil
  then show ?case by simp
next
  case (Cons call calls)
  show ?case
  proof (cases call)
    case (Chat stream message)
    with Cons show ?thesis by (simp add: threads_used_chat)
  next
    case ClearChat
    with Cons show ?thesis by (simp add: threads_used_clear)
  qed
qed

lemma new_thread_has_no_checkpoint:
  assumes "threads_used s"
  shows "memory (snd (langgraph_clear_chat s)) (py_str_int (thread_id (snd (langgraph_clear_chat s)))) = None"
proof (rule ccontr)
  assume "\<not> ?thesis"
  then have "memory s (py_str_int (thread_id s + 1)) \<noteq> None"
    by (simp add: langgraph_clear_chat_state)
  with assms obtain i where i: "1 \<le> i" "i \<le> thread_id s" "py_str_int (thread_id s + 1) = py_str_int i"
    unfolding threads_used_def by blast
  from assms have "1 \<le> thread_id s" by (simp add: threads_used_def)
  with i have "thread_id s + 1 = i"
    by (intro py_str_int_inj) simp_all
  with i(2) show False by simp
qed

lemma langgraph_chat_same_checkpoint:
  assumes "memory s (py_str_int (thread_id s)) = memory t (py_str_int (thread_id t))"
  shows "fst (langgraph_chat stream message s) = fst (langgraph_chat stream message t)
     \<and> memory (snd (langgraph_chat stream message s)) (py_str_int (thread_id s))
         = memory (snd (langgraph_chat stream message t)) (py_str_int (thread_id t))"
proof -
  obtain events raised checkpoint
    where e: "stream (memory s (py_str_int (thread_id s))) message = ((events, raised), checkpoint)"
    by (metis surj_pair)
  with assms
  have e': "stream (memory t (py_str_int (thread_id t))) message = ((events, raised), checkpoint)"
    by simp
  show ?thesis
    unfolding langgraph_chat_unfold [where stream = stream and s = s and message = message, OF e]
      langgraph_chat_unfold [where stream = stream and s = t and message = message, OF e']
    by simp
qed

lemma langgraph_after_clear:
  fixes s :: "'c langgraph_agent"
  assumes "threads_used s"
  shows "fst (langgraph_clear_chat s) = Inr True
     \<and> memory (snd (langgraph_clear_chat s)) (py_str_int (thread_id (snd (langgraph_clear_chat s)))) = None
     \<and> fst (langgraph_chat stream message (snd (langgraph_clear_chat s)))
         = fst (langgraph_chat stream message langgraph_init)
     \<and> memory (snd (langgraph_chat stream message (snd (langgraph_clear_chat s))))
          (py_str_int (thread_id (snd (langgraph_clear_chat s))))
         = memory (snd (langgraph_chat stream message langgraph_init))
             (py_str_int (thread_id (langgraph_init :: 'c langgraph_agent)))"
proof -
  let ?c = "snd (langgraph_clear_chat s)"
  have n: "memory ?c (py_str_int (thread_id ?c)) = None"
    using assms by (rule new_thread_has_no_checkpoint)
  let ?i = "langgraph_init :: 'c langgraph_agent"
  have i: "memory ?i (py_str_int (thread_id ?i)) = None"
    by (simp add: langgraph_init_def)
  from n i have "memory ?c (py_str_int (thread_id ?c)) = memory ?i (py_str_int (thread_id ?i))"
    by simp
  from langgraph_chat_same_checkpoint [OF this] n show ?thesis
    by (simp add: langgraph_clear_chat_state)
qed

lemma langgraph_after_clear_run:
  fixes calls :: "'c langgraph_call list"
  shows "fst (langgraph_clear_chat (langgraph_run calls langgraph_init)) = Inr True
     \<and> memory (snd (langgraph_clear_chat (langgraph_run calls langgraph_init)))
         (py_str_int (thread_id (snd (langgraph_clear_chat (langgraph_run calls langgraph_init))))) = None
     \<and> fst (langgraph_chat stream message (snd (langgraph_clear_chat (langgraph_run calls langgraph_init))))
         = fst (langgraph_chat stream message langgraph_init)
     \<and> memory (snd (langgraph_chat stream message (snd (langgraph_clear_chat (langgraph_run calls langgraph_init)))))
          (py_str_int (thread_id (snd (langgraph_clear_chat (langgraph_run calls langgraph_init)))))
         = memory (snd (langgraph_chat stream message langgraph_init))
             (py_str_int (thread_id (langgraph_init :: 'c langgraph_agent)))"
  by (rule langgraph_after_clear) (rule threads_used_run, rule threads_used_init)

text \<open>
  Claim C3.  After \<open>clear_chat\<close> has returned \<^verbatim>\<open>True\<close>, the next \<open>chat\<close>
  returns what the same call returns on a newly constructed adapter, and leaves the same
  conversation, whatever the provider does and whatever came before.  The two OpenAI
  adapters and the CrewAI one reset from any state (the Responses adapter has no previous
  response id and takes its new-conversation branch; the Agents SDK and CrewAI adapters
  have an empty history); the LangGraph adapter, after any calls since its construction,
  is on a thread without a checkpoint; the Google ADK adapter is on a new session without
  events; the smolagents and LlamaIndex adapters have an empty memory.
\<close>

theorem chat_after_clear_chat_as_fresh:
  fixes calls :: "'c langgraph_call list"
  shows
  "(crewai_messages (snd (crewai_clear_chat c)) = []
     \<and> fst (crewai_chat kickoff message (snd (crewai_clear_chat c)))
         = fst (crewai_chat kickoff message crewai_init)
     \<and> crewai_messages (snd (crewai_chat kickoff message (snd (crewai_clear_chat c))))
         = crewai_messages (snd (crewai_chat kickoff message crewai_init)))
   \<and> (conversation_history (snd (sdk_clear_chat a)) = []
     \<and> fst (sdk_chat run_sync message (snd (sdk_clear_chat a)))
         = fst (sdk_chat run_sync message sdk_init)
     \<and> conversation_history (snd (sdk_chat run_sync message (snd (sdk_clear_chat a))))
         = conversation_history (snd (sdk_chat run_sync message sdk_init)))
   \<and> (previous_response_id (snd (responses_clear_chat p)) = None
     \<and> fst (responses_chat env message (snd (responses_clear_chat p)))
         = fst (responses_chat env message (responses_init (responses_model p) (system_instructions p)))
     \<and> previous_response_id (snd (responses_chat env message (snd (responses_clear_chat p))))
         = previous_response_id
             (snd (responses_chat env message (responses_init (responses_model p) (system_instructions p)))))
   \<and> (memory (snd (langgraph_clear_chat (langgraph_run calls langgraph_init)))
         (py_str_int (thread_id (snd (langgraph_clear_chat (langgraph_run calls langgraph_init))))) = None
     \<and> fst (langgraph_chat stream message (snd (langgraph_clear_chat (langgraph_run calls langgraph_init))))
         = fst (langgraph_chat stream message langgraph_init)
     \<and> memory (snd (langgraph_chat stream message (snd (langgraph_clear_chat (langgraph_run calls langgraph_init)))))
          (py_str_int (thread_id (snd (langgraph_clear_chat (langgraph_run calls langgraph_init)))))
         = memory (snd (langgraph_chat stream message langgraph_init))
             (py_str_int (thread_id (langgraph_init :: 'c langgraph_agent))))
   \<and> (fst (adk_clear_chat new_uuid created k) = Inr True \<longrightarrow>
         adk_sessions (snd (adk_clear_chat new_uuid created k))
            (adk_session_id (snd (adk_clear_chat new_uuid created k))) = Some []
         \<and> fst (adk_chat run_async message (snd (adk_clear_chat new_uuid created k)))
             = fst (adk_chat run_async message (adk_fresh new_uuid)))
   \<and> (fst (smol_clear_chat reset m) = Inr True \<longrightarrow>
         smol_memory (snd (smol_clear_chat reset m)) = []
         \<and> fst (smol_chat run message (snd (smol_clear_chat reset m)))
             = fst (smol_chat run message smol_init)
         \<and> smol_memory (snd (smol_chat run message (snd (smol_clear_chat reset m))))
             = smol_memory (snd (smol_chat run message smol_init)))
   \<and> (fst (llama_clear_chat lreset l) = Inr True \<longrightarrow>
         llama_memory (snd (llama_clear_chat lreset l)) = []
         \<and> fst (llama_chat lenv message (snd (llama_clear_chat lreset l)))
             = fst (llama_chat lenv message llama_init)
         \<and> llama_memory (snd (llama_chat lenv message (snd (llama_clear_chat lreset l))))
             = llama_memory (snd (llama_chat lenv message llama_init)))"
proof (intro conjI)
  note c = crewai_after_clear [of c kickoff message]
  show "crewai_messages (snd (crewai_clear_chat c)) = []" using c by (elim conjE)
  show "fst (crewai_chat kickoff message (snd (crewai_clear_chat c)))
         = fst (crewai_chat kickoff message crewai_init)" using c by (elim conjE)
  show "crewai_messages (snd (crewai_chat kickoff message (snd (crewai_clear_chat c))))
         = crewai_messages (snd (crewai_chat kickoff message crewai_init))" using c by (elim conjE)
next
  note a = sdk_after_clear [of a run_sync message]
  show "conversation_history (snd (sdk_clear_chat a)) = []" using a by (elim conjE)
  show "fst (sdk_chat run_sync message (snd (sdk_clear_chat a)))
         = fst (sdk_chat run_sync message sdk_init)" using a by (elim conjE)
  show "conversation_history (snd (sdk_chat run_sync message (snd (sdk_clear_chat a))))
         = conversation_history (snd (sdk_chat run_sync message sdk_init))" using a by (elim conjE)
next
  note p = responses_after_clear [of p env message]
  show "previous_response_id (snd (responses_clear_chat p)) = None" using p by (elim conjE)
  show "fst (responses_chat env message (snd (responses_clear_chat p)))
         = fst (responses_chat env message (responses_init (responses_model p) (system_instructions p)))"
    using p by (elim conjE)
  show "previous_response_id (snd (responses_chat env message (snd (responses_clear_chat p))))
         = previous_response_id
             (snd (responses_chat env message (responses_init (responses_model p) (system_instructions p))))"
    using p by (elim conjE)
next
  note g = langgraph_after_clear_run [of calls stream message]
  show "memory (snd (langgraph_clear_chat (langgraph_run calls langgraph_init)))
         (py_str_int (thread_id (snd (langgraph_clear_chat (langgraph_run calls langgraph_init))))) = None"
    using g by (elim conjE)
  show "fst (langgraph_chat stream message (snd (langgraph_clear_chat (langgraph_run calls langgraph_init))))
         = fst (langgraph_chat stream message langgraph_init)" using g by (elim conjE)
  show "memory (snd (langgraph_chat stream message (snd (langgraph_clear_chat (langgraph_run calls langgraph_init)))))
          (py_str_int (thread_id (snd (langgraph_clear_chat (langgraph_run calls langgraph_init)))))
         = memory (snd (langgraph_chat stream message langgraph_init))
             (py_str_int (thread_id (langgraph_init :: 'c langgraph_agent)))" using g by (elim conjE)
next
  show "fst (adk_clear_chat new_uuid created k) = Inr True \<longrightarrow>
         adk_sessions (snd (adk_clear_chat new_uuid created k))
            (adk_session_id (snd (adk_clear_chat new_uuid created k))) = Some []
         \<and> fst (adk_chat run_async message (snd (adk_clear_chat new_uuid created k)))
             = fst (adk_chat run_async message (adk_fresh new_uuid))"
    by (rule adk_after_clear)
next
  show "fst (smol_clear_chat reset m) = Inr True \<longrightarrow>
         smol_memory (snd (smol_clear_chat reset m)) = []
         \<and> fst (smol_chat run message (snd (smol_clear_chat reset m)))
             = fst (smol_chat run message smol_init)
         \<and> smol_memory (snd (smol_chat run message (snd (smol_clear_chat reset m))))
             = smol_memory (snd (smol_chat run message smol_init))"
    by (rule smol_after_clear)
next
  show "fst (llama_clear_chat lreset l) = Inr True \<longrightarrow>
         llama_memory (snd (llama_clear_chat lreset l)) = []
         \<and> fst (llama_chat lenv message (snd (llama_clear_chat lreset l)))
             = fst (llama_chat lenv message llama_init)
         \<and> llama_memory (snd (llama_chat lenv message (snd (llama_clear_chat lreset l))))
             = llama_memory (snd (llama_chat lenv message llama_init))"
    by (rule llama_after_clear)
qed

theorem chat_after_clear_chat_as_fresh_witness:
  "fst (adk_chat
          (\<lambda>session message.
             (([\<lparr>is_final_response = True,
                  event_text = Some (if session = Some [] then ''fresh'' else ''stale''),
                  event_content_parts = NoParts\<rparr>], None),
              map_option (\<lambda>events. events @ [message]) session))
          ''second''
          (snd (adk_chat
                  (\<lambda>session message.
                     (([\<lparr>is_final_response = True,
                          event_text = Some (if session = Some [] then ''fresh'' else ''stale''),
                          event_content_parts = NoParts\<rparr>], None),
                      map_option (\<lambda>events. events @ [message]) session))
                  ''first'' (adk_fresh ''u0''))))
     = Inr ''stale''
   \<and> fst (adk_clear_chat ''u1'' None
          (snd (adk_chat
                  (\<lambda>session message.
                     (([\<lparr>is_final_response = True,
                          event_text = Some (if session = Some [] then ''fresh'' else ''stale''),
                          event_content_parts = NoParts\<rparr>], None),
                      map_option (\<lambda>events. events @ [message]) session))
                  ''first'' (adk_fresh ''u0''))))
     = Inr True
   \<and> fst (adk_chat
          (\<lambda>session message.
             (([\<lparr>is_final_response = True,
                  event_text = Some (if session = Some [] then ''fresh'' else ''stale''),
                  event_content_parts = NoParts\<rparr>], None),
              map_option (\<lambda>events. events @ [message]) session))
          ''second''
          (snd (adk_clear_chat ''u1'' None
             (snd (adk_chat
                  (\<lambda>session message.
                     (([\<lparr>is_final_response = True,
                          event_text = Some (if session = Some [] then ''fresh'' else ''stale''),
                          event_content_parts = NoParts\<rparr>], None),
                      map_option (\<lambda>events. events @ [message]) session))
                  ''first'' (adk_fresh ''u0''))))))
     = Inr ''fresh''
   \<and> fst (smol_chat (\<lambda>memory task. (Inr (if memory = [] then ''fresh'' else ''stale''), memory @ [task]))
          ''second''
          (snd (smol_chat (\<lambda>memory task. (Inr (if memory = [] then ''fresh'' else ''stale''), memory @ [task]))
                  ''first'' smol_init)))
     = Inr ''stale''
   \<and> fst (smol_clear_chat None
          (snd (smol_chat (\<lambda>memory task. (Inr (if memory = [] then ''fresh'' else ''stale''), memory @ [task]))
                  ''first'' smol_init)))
     = Inr True
   \<and> fst (smol_chat (\<lambda>memory task. (Inr (if memory = [] then ''fresh'' else ''stale''), memory @ [task]))
          ''second''
          (snd (smol_clear_chat None
             (snd (smol_chat (\<lambda>memory task. (Inr (if memory = [] then ''fresh'' else ''stale''), memory @ [task]))
                  ''first'' smol_init)))))
     = Inr ''fresh''
   \<and> fst (llama_chat
          \<lparr>asyncio_run = (\<lambda>memory task. (Inr (if memory = [] then ''fresh'' else ''stale''), memory @ [task])),
           run_until_complete = (\<lambda>memory task. (Inr ''loop'', memory))\<rparr>
          ''second''
          (snd (llama_chat
             \<lparr>asyncio_run = (\<lambda>memory task. (Inr (if memory = [] then ''fresh'' else ''stale''), memory @ [task])),
              run_until_complete = (\<lambda>memory task. (Inr ''loop'', memory))\<rparr>
             ''first'' llama_init)))
     = Inr ''stale''
   \<and> fst (llama_clear_chat None
          (snd (llama_chat
             \<lparr>asyncio_run = (\<lambda>memory task. (Inr (if memory = [] then ''fresh'' else ''stale''), memory @ [task])),
              run_until_complete = (\<lambda>memory task. (Inr ''loop'', memory))\<rparr>
             ''first'' llama_init)))
     = Inr True
   \<and> fst (llama_chat
          \<lparr>asyncio_run = (\<lambda>memory task. (Inr (if memory = [] then ''fresh'' else ''stale''), memory @ [task])),
           run_until_complete = (\<lambda>memory task. (Inr ''loop'', memory))\<rparr>
          ''second''
          (snd (llama_clear_chat None
             (snd (llama_chat
                \<lparr>asyncio_run = (\<lambda>memory task. (Inr (if memory = [] then ''fresh'' else ''stale''), memory @ [task])),
                 run_until_complete = (\<lambda>memory task. (Inr ''loop'', memory))\<rparr>
                ''first'' llama_init)))))
     = Inr ''fresh''"
proof -
  let ?ra = "\<lambda>(session :: string list option) (message :: string).
             (([\<lparr>is_final_response = True,
                  event_text = Some (if session = Some [] then ''fresh'' else ''stale''),
                  event_content_parts = NoParts\<rparr>], None :: exn option),
              map_option (\<lambda>events. events @ [message]) session)"
  let ?rs = "\<lambda>(memory :: string list) (task :: string).
      (Inr (if memory = [] then ''fresh'' else ''stale'') :: string result, memory @ [task])"
  let ?le = "\<lparr>asyncio_run = ?rs,
      run_until_complete = (\<lambda>(memory :: string list) (task :: string). (Inr ''loop'' :: string result, memory))\<rparr>"
  let ?k = "snd (adk_chat ?ra ''first'' (adk_fresh ''u0''))"
  let ?m = "snd (smol_chat ?rs ''first'' smol_init)"
  let ?l = "snd (llama_chat ?le ''first'' llama_init)"
  have k: "?k = \<lparr>adk_name = ''Google ADK Agent'', adk_user_id = ''default_user'',
      adk_session_id = ''u0'', adk_sessions = [''u0'' \<mapsto> [''first'']]\<rparr>"
    by (simp add: adk_chat_def adk_fresh_def try_except_def truthy_def Let_def)
  have m: "?m = \<lparr>smol_name = ''SmolAgents Agent'', smol_memory = [''first'']\<rparr>"
    by (simp add: smol_chat_def smol_init_def try_except_def)
  have l: "?l = \<lparr>llama_name = ''Llama-Index Agent'', llama_memory = [''first'']\<rparr>"
    by (simp add: llama_chat_def llama_init_def try_except_def)
  have a1: "fst (adk_chat ?ra ''second'' ?k) = Inr ''stale''"
    unfolding k by (simp add: adk_chat_def try_except_def truthy_def Let_def)
  have a2: "fst (adk_clear_chat ''u1'' None ?k) = Inr True"
    by (simp add: adk_clear_chat_def try_except_def Let_def)
  have a3: "fst (adk_chat ?ra ''second'' (adk_fresh ''u1'')) = Inr ''fresh''"
    by (simp add: adk_chat_def adk_fresh_def try_except_def truthy_def Let_def)
  have s1: "fst (smol_chat ?rs ''second'' ?m) = Inr ''stale''"
    unfolding m by (simp add: smol_chat_def try_except_def)
  have s2: "fst (smol_clear_chat None ?m) = Inr True"
    by (simp add: smol_clear_chat_def try_except_def)
  have s3: "fst (smol_chat ?rs ''second'' smol_init) = Inr ''fresh''"
    by (simp add: smol_chat_def smol_init_def try_except_def)
  have l1: "fst (llama_chat ?le ''second'' ?l) = Inr ''stale''"
    unfolding l by (simp add: llama_chat_def try_except_def)
  have l2: "fst (llama_clear_chat None ?l) = Inr True"
    by (simp add: llama_clear_chat_def try_except_def)
  have l3: "fst (llama_chat ?le ''second'' llama_init) = Inr ''fresh''"
    by (simp add: llama_chat_def llama_init_def try_except_def)
  note t = chat_after_clear_chat_as_fresh [where new_uuid = "''u1''" and created = None and k = ?k
      and run_async = ?ra and message = "''second''" and reset = None and m = ?m and run = ?rs
      and lreset = None and l = ?l and lenv = ?le]
  have ta: "fst (adk_chat ?ra ''second'' (snd (adk_clear_chat ''u1'' None ?k)))
      = fst (adk_chat ?ra ''second'' (adk_fresh ''u1''))"
    using t [THEN conjunct2, THEN conjunct2, THEN conjunct2, THEN conjunct2, THEN conjunct1] a2
    by blast
  have ts: "fst (smol_chat ?rs ''second'' (snd (smol_clear_chat None ?m)))
      = fst (smol_chat ?rs ''second'' smol_init)"
    using t [THEN conjunct2, THEN conjunct2, THEN conjunct2, THEN conjunct2, THEN conjunct2,
        THEN conjunct1] s2
    by blast
  have tl: "fst (llama_chat ?le ''second'' (snd (llama_clear_chat None ?l)))
      = fst (llama_chat ?le ''second'' llama_init)"
    using t [THEN conjunct2, THEN conjunct2, THEN conjunct2, THEN conjunct2, THEN conjunct2,
        THEN conjunct2] l2
    by blast
  from a1 a2 ta [unfolded a3] s1 s2 ts [unfolded s3] l1 l2 tl [unfolded l3]
  show ?thesis by (intro conjI)
qed

subsection \<open>A second reset\<close>

lemma crewai_clear_twice:
  "fst (crewai_clear_chat (snd (crewai_clear_chat c))) = Inr True
   \<and> snd (crewai_clear_chat (snd (crewai_clear_chat c))) = snd (crewai_clear_chat c)
   \<and> crewai_messages (snd (crewai_clear_chat (snd (crewai_clear_chat c)))) = crewai_messages crewai_init"
  by (simp add: crewai_clear_chat_def crewai_init_def try_except_def)

lemma sdk_clear_twice:
  "fst (sdk_clear_chat (snd (sdk_clear_chat a))) = Inr True
   \<and> snd (sdk_clear_chat (snd (sdk_clear_chat a))) = snd (sdk_clear_chat a)
   \<and> conversation_history (snd (sdk_clear_chat (snd (sdk_clear_chat a)))) = conversation_history sdk_init"
  by (simp add: sdk_clear_chat_def sdk_init_def try_except_def)

lemma responses_clear_twice:
  "fst (responses_clear_chat (snd (responses_clear_chat p))) = Inr True
   \<and> snd (responses_clear_chat (snd (responses_clear_chat p))) = snd (responses_clear_chat p)
   \<and> previous_response_id (snd (responses_clear_chat (snd (responses_clear_chat p))))
       = previous_response_id (responses_init model instructions)"
  by (simp add: responses_clear_chat_def responses_init_def try_except_def)

lemma langgraph_clear_twice:
  fixes calls :: "'c langgraph_call list"
  shows "fst (langgraph_clear_chat (snd (langgraph_clear_chat (langgraph_run calls langgraph_init)))) = Inr True
   \<and> memory (snd (langgraph_clear_chat (snd (langgraph_clear_chat (langgraph_run calls langgraph_init)))))
        (py_str_int (thread_id (snd (langgraph_clear_chat (snd (langgraph_clear_chat (langgraph_run calls langgraph_init)))))))
       = memory (langgraph_init :: 'c langgraph_agent) (py_str_int (thread_id (langgraph_init :: 'c langgraph_agent)))"
proof -
  let ?s = "langgraph_run calls (langgraph_init :: 'c langgraph_agent)"
  have "threads_used ?s" by (rule threads_used_run) (rule threads_used_init)
  then have "threads_used (snd (langgraph_clear_chat ?s))" by (rule threads_used_clear)
  then have "memory (snd (langgraph_clear_chat (snd (langgraph_clear_chat ?s))))
        (py_str_int (thread_id (snd (langgraph_clear_chat (snd (langgraph_clear_chat ?s)))))) = None"
    by (rule new_thread_has_no_checkpoint)
  moreover have "memory (langgraph_init :: 'c langgraph_agent) (py_str_int (thread_id (langgraph_init :: 'c langgraph_agent))) = None"
    by (simp add: langgraph_init_def)
  moreover have "fst (langgraph_clear_chat (snd (langgraph_clear_chat ?s))) = Inr True"
    by (simp add: langgraph_clear_chat_state)
  ultimately show ?thesis by simp
qed

lemma adk_clear_outcome:
  "fst (adk_clear_chat new_uuid created k) = Inr (created = None)
   \<and> (created = None \<longrightarrow>
        adk_sessions (snd (adk_clear_chat new_uuid created k))
          (adk_session_id (snd (adk_clear_chat new_uuid created k))) = Some [])"
  by (cases created) (simp_all add: adk_clear_chat_def try_except_def Let_def)

lemma smol_clear_outcome:
  "fst (smol_clear_chat reset m) = Inr (reset = None)
   \<and> (reset = None \<longrightarrow> smol_memory (snd (smol_clear_chat reset m)) = smol_memory smol_init)"
  by (cases reset) (simp_all add: smol_clear_chat_def smol_init_def try_except_def)

lemma llama_clear_outcome:
  "fst (llama_clear_chat reset l) = Inr (reset = None)
   \<and> (reset = None \<longrightarrow> llama_memory (snd (llama_clear_chat reset l)) = llama_memory llama_init)"
  by (cases reset) (simp_all add: llama_clear_chat_def llama_init_def try_except_def)

text \<open>
  Claim C6, amended.  A second \<open>clear_chat\<close> never raises.  In the CrewAI, OpenAI
  Agents SDK, OpenAI Responses and LangGraph adapters it returns \<^verbatim>\<open>True\<close> and leaves
  the state of no conversation: the same state as the first call left (for LangGraph, one
  more thread without a checkpoint, as on a new adapter).  In the Google ADK, smolagents
  and LlamaIndex adapters it returns \<^verbatim>\<open>True\<close> exactly when the library call that
  resets returns, and then leaves an empty session or memory; when that call raises, it
  returns \<^verbatim>\<open>False\<close>.
\<close>

theorem second_clear_chat:
  fixes calls :: "'c langgraph_call list"
  shows
  "(fst (crewai_clear_chat (snd (crewai_clear_chat c))) = Inr True
     \<and> snd (crewai_clear_chat (snd (crewai_clear_chat c))) = snd (crewai_clear_chat c)
     \<and> crewai_messages (snd (crewai_clear_chat (snd (crewai_clear_chat c)))) = crewai_messages crewai_init)
   \<and> (fst (sdk_clear_chat (snd (sdk_clear_chat a))) = Inr True
     \<and> snd (sdk_clear_chat (snd (sdk_clear_chat a))) = snd (sdk_clear_chat a)
     \<and> conversation_history (snd (sdk_clear_chat (snd (sdk_clear_chat a)))) = conversation_history sdk_init)
   \<and> (fst (responses_clear_chat (snd (responses_clear_chat p))) = Inr True
     \<and> snd (responses_clear_chat (snd (responses_clear_chat p))) = snd (responses_clear_chat p)
     \<and> previous_response_id (snd (responses_clear_chat (snd (responses_clear_chat p))))
         = previous_response_id (responses_init model instructions))
   \<and> (fst (langgraph_clear_chat (snd (langgraph_clear_chat (langgraph_run calls langgraph_init)))) = Inr True
     \<and> memory (snd (langgraph_clear_chat (snd (langgraph_clear_chat (langgraph_run calls langgraph_init)))))
          (py_str_int (thread_id (snd (langgraph_clear_chat (snd (langgraph_clear_chat (langgraph_run calls langgraph_init)))))))
         = memory (langgraph_init :: 'c langgraph_agent) (py_str_int (thread_id (langgraph_init :: 'c langgraph_agent))))
   \<and> (fst (adk_clear_chat uuid_b created_b (snd (adk_clear_chat uuid_a created_a k))) = Inr (created_b = None)
     \<and> (created_b = None \<longrightarrow>
          adk_sessions (snd (adk_clear_chat uuid_b created_b (snd (adk_clear_chat uuid_a created_a k))))
            (adk_session_id (snd (adk_clear_chat uuid_b created_b (snd (adk_clear_chat uuid_a created_a k)))))
          = Some []))
   \<and> (fst (smol_clear_chat reset_b (snd (smol_clear_chat reset_a m))) = Inr (reset_b = None)
     \<and> (reset_b = None \<longrightarrow>
          smol_memory (snd (smol_clear_chat reset_b (snd (smol_clear_chat reset_a m)))) = smol_memory smol_init))
   \<and> (fst (llama_clear_chat lreset_b (snd (llama_clear_chat lreset_a l))) = Inr (lreset_b = None)
     \<and> (lreset_b = None \<longrightarrow>
          llama_memory (snd (llama_clear_chat lreset_b (snd (llama_clear_chat lreset_a l)))) = llama_memory llama_init))"
  by (intro conjI crewai_clear_twice [THEN conjunct1] crewai_clear_twice [THEN conjunct2, THEN conjunct1]
      crewai_clear_twice [THEN conjunct2, THEN conjunct2]
      sdk_clear_twice [THEN conjunct1] sdk_clear_twice [THEN conjunct2, THEN conjunct1]
      sdk_clear_twice [THEN conjunct2, THEN conjunct2]
      responses_clear_twice [THEN conjunct1] responses_clear_twice [THEN conjunct2, THEN conjunct1]
      responses_clear_twice [THEN conjunct2, THEN conjunct2]
      langgraph_clear_twice [THEN conjunct1] langgraph_clear_twice [THEN conjunct2]
      adk_clear_outcome [THEN conjunct1] adk_clear_outcome [THEN conjunct2]
      smol_clear_outcome [THEN conjunct1] smol_clear_outcome [THEN conjunct2]
      llama_clear_outcome [THEN conjunct1] llama_clear_outcome [THEN conjunct2])

theorem second_clear_chat_witness:
  "adk_sessions (snd (adk_clear_chat ''u2'' None (snd (adk_clear_chat ''u1'' None (adk_fresh ''u0'' :: unit adk_agent)))))
     (adk_session_id (snd (adk_clear_chat ''u2'' None (snd (adk_clear_chat ''u1'' None (adk_fresh ''u0'' :: unit adk_agent))))))
     = Some []
   \<and> smol_memory (snd (smol_clear_chat None (snd (smol_clear_chat None (smol_init :: unit smol_agent))))) = []
   \<and> llama_memory (snd (llama_clear_chat None (snd (llama_clear_chat None (llama_init :: unit llama_agent))))) = []"
proof -
  note t = second_clear_chat [where uuid_b = "''u2''" and created_b = None and uuid_a = "''u1''"
      and created_a = None and k = "adk_fresh ''u0'' :: unit adk_agent"
      and reset_b = None and reset_a = None and m = "smol_init :: unit smol_agent"
      and lreset_b = None and lreset_a = None and l = "llama_init :: unit llama_agent"]
  from t have a: "adk_sessions (snd (adk_clear_chat ''u2'' None (snd (adk_clear_chat ''u1'' None (adk_fresh ''u0'' :: unit adk_agent)))))
     (adk_session_id (snd (adk_clear_chat ''u2'' None (snd (adk_clear_chat ''u1'' None (adk_fresh ''u0'' :: unit adk_agent))))))
     = Some []" by blast
  from t have b: "smol_memory (snd (smol_clear_chat None (snd (smol_clear_chat None (smol_init :: unit smol_agent)))))
     = smol_memory (smol_init :: unit smol_agent)" by blast
  from t have c: "llama_memory (snd (llama_clear_chat None (snd (llama_clear_chat None (llama_init :: unit llama_agent)))))
     = llama_memory (llama_init :: unit llama_agent)" by blast
  from a b c show ?thesis by (simp add: smol_init_def llama_init_def)
qed

text \<open>
  Claim C6 as stated fails: a second \<open>clear_chat\<close> of the Google ADK adapter, called
  where an event loop is running so that \<^verbatim>\<open>asyncio.run\<close> raises, returns
  \<^verbatim>\<open>False\<close> after a first call that returned \<^verbatim>\<open>True\<close>, and leaves the adapter on a
  session id that has no session.
\<close>

theorem second_clear_chat_can_fail:
  "fst (adk_clear_chat ''u1'' None (adk_fresh ''u0'' :: unit adk_agent)) = Inr True
   \<and> fst (adk_clear_chat ''u2'' (Some (Exn RuntimeError running_loop_text))
            (snd (adk_clear_chat ''u1'' None (adk_fresh ''u0'' :: unit adk_agent)))) = Inr False
   \<and> adk_sessions
        (snd (adk_clear_chat ''u2'' (Some (Exn RuntimeError running_loop_text))
               (snd (adk_clear_chat ''u1'' None (adk_fresh ''u0'' :: unit adk_agent)))))
        (adk_session_id
          (snd (adk_clear_chat ''u2'' (Some (Exn RuntimeError running_loop_text))
                 (snd (adk_clear_chat ''u1'' None (adk_fresh ''u0'' :: unit adk_agent))))))
      = None"
  by (simp add: adk_clear_chat_def adk_fresh_def try_except_def)

section \<open>Properties of the host\<close>

subsection \<open>Discovery\<close>

lemma module_name_of_inj:
  assumes "suffix ''.py'' f" "suffix ''.py'' g" "module_name_of f = module_name_of g"
  shows "f = g"
proof -
  from assms(1) obtain a where a: "f = a @ ''.py''" by (auto simp: suffix_def)
  from assms(2) obtain b where b: "g = b @ ''.py''" by (auto simp: suffix_def)
  from assms(3) show ?thesis by (simp add: a b module_name_of_def)
qed

lemma agent_suffix_py: "suffix ''_agent.py'' f \<Longrightarrow> suffix ''.py'' f"
proof -
  assume "suffix ''_agent.py'' f"
  then obtain a where "f = a @ ''_agent.py''" by (auto simp: suffix_def)
  then have "f = (a @ ''_agent'') @ ''.py''" by simp
  then show ?thesis unfolding suffix_def by blast
qed

lemma dict_set_fresh: "key \<notin> fst ` set d \<Longrightarrow> dict_set d key v = d @ [(key, v)]"
  by (induction d key v rule: dict_set.induct) auto

lemma candidate_step:
  "snd (try_except (load_candidate import_module name agents) (\<lambda>e agents'. (Inr (), agents')))
     = (if candidate_accepted (import_module name)
        then dict_set agents name (candidate_name (import_module name))
        else agents)"
proof (cases "import_module name")
  case (Inl e)
  then show ?thesis
    by (simp add: load_candidate_def candidate_accepted_def try_except_def)
next
  case (Inr module)
  show ?thesis
  proof (cases module)
    case NoAgent
    with Inr show ?thesis
      by (simp add: load_candidate_def candidate_accepted_def try_except_def
          safe_get_agent_instance_def)
  next
    case AgentNotCallable
    with Inr show ?thesis
      by (simp add: load_candidate_def candidate_accepted_def try_except_def
          safe_get_agent_instance_def)
  next
    case (AgentClass constructed)
    show ?thesis
    proof (cases constructed)
      case (Inl e)
      with Inr AgentClass show ?thesis
        by (simp add: load_candidate_def candidate_accepted_def try_except_def
            safe_get_agent_instance_def)
    next
      case c: (Inr obj)
      show ?thesis
      proof (cases obj)
        case None
        with Inr AgentClass c show ?thesis
          by (simp add: load_candidate_def candidate_accepted_def try_except_def
              safe_get_agent_instance_def is_valid_agent_instance_def)
      next
        case (Some inst)
        show ?thesis
        proof (cases "inst_name inst")
          case None
          with Inr AgentClass c Some show ?thesis
            by (simp add: load_candidate_def candidate_accepted_def try_except_def
                safe_get_agent_instance_def is_valid_agent_instance_def)
        next
          case n: (Some shown)
          show ?thesis
          proof (cases "inst_chat inst = ChatCallable")
            case True
            with Inr AgentClass c Some n show ?thesis
              by (simp add: load_candidate_def candidate_accepted_def candidate_name_def
                  try_except_def safe_get_agent_instance_def is_valid_agent_instance_def)
          next
            case False
            with Inr AgentClass c Some n show ?thesis
              by (simp add: load_candidate_def candidate_accepted_def try_except_def
                  safe_get_agent_instance_def is_valid_agent_instance_def)
          qed
        qed
      qed
    qed
  qed
qed

lemma loop_step:
  "available_agents_loop import_module (fname # files) agents =
     available_agents_loop import_module files
       (if is_candidate import_module fname
        then dict_set agents (module_name_of fname)
               (candidate_name (import_module (module_name_of fname)))
        else agents)"
  by (simp add: candidate_step is_candidate_def)

lemma loop_distinct:
  assumes "distinct files"
    and "fst ` set agents \<inter> module_name_of ` {f \<in> set files. suffix ''_agent.py'' f} = {}"
  shows "available_agents_loop import_module files agents
           = agents @ map (discovered_entry import_module) (filter (is_candidate import_module) files)"
  using assms
proof (induction files arbitrary: agents)
  case Nil
  then show ?case by simp
next
  case (Cons fname files)
  show ?case
  proof (cases "is_candidate import_module fname")
    case False
    have "fst ` set agents \<inter> module_name_of ` {f \<in> set files. suffix ''_agent.py'' f} = {}"
      using Cons.prems(2) by auto
    with Cons.IH [of agents] Cons.prems(1) False show ?thesis
      by (simp add: loop_step del: available_agents_loop.simps)
  next
    case True
    then have sf: "suffix ''_agent.py'' fname" by (simp add: is_candidate_def)
    have fresh: "module_name_of fname \<notin> fst ` set agents"
      using Cons.prems(2) sf by auto
    let ?agents = "agents @ [discovered_entry import_module fname]"
    have step: "dict_set agents (module_name_of fname) (candidate_name (import_module (module_name_of fname)))
        = ?agents"
      using fresh by (simp add: dict_set_fresh discovered_entry_def)
    have "module_name_of fname \<notin> module_name_of ` {f \<in> set files. suffix ''_agent.py'' f}"
    proof
      assume "module_name_of fname \<in> module_name_of ` {f \<in> set files. suffix ''_agent.py'' f}"
      then obtain g where g: "g \<in> set files" "suffix ''_agent.py'' g" "module_name_of fname = module_name_of g"
        by auto
      from module_name_of_inj [OF agent_suffix_py [OF sf] agent_suffix_py [OF g(2)] g(3)]
      have "fname = g" .
      with g(1) Cons.prems(1) show False by simp
    qed
    moreover have "fst ` set agents \<inter> module_name_of ` {f \<in> set files. suffix ''_agent.py'' f} = {}"
      using Cons.prems(2) by auto
    ultimately have "fst ` set ?agents \<inter> module_name_of ` {f \<in> set files. suffix ''_agent.py'' f} = {}"
      by (auto simp: discovered_entry_def)
    with Cons.IH [of ?agents] Cons.prems(1)
    have "available_agents_loop import_module files ?agents
        = ?agents @ map (discovered_entry import_module) (filter (is_candidate import_module) files)"
      by simp
    with True step show ?thesis
      by (simp add: loop_step del: available_agents_loop.simps)
  qed
qed

lemma get_available_agents_distinct:
  assumes "distinct listdir"
  shows "get_available_agents listdir import_module
           = map (discovered_entry import_module) (filter (is_candidate import_module) listdir)"
  using loop_distinct [OF assms, of "[]" import_module]
  by (simp add: get_available_agents_def)

lemma module_name_of_inj_on:
  "inj_on module_name_of {f \<in> set files. is_candidate import_module f}"
proof (rule inj_onI)
  fix f g
  assume "f \<in> {f \<in> set files. is_candidate import_module f}"
    and "g \<in> {f \<in> set files. is_candidate import_module f}"
    and e: "module_name_of f = module_name_of g"
  then have "suffix ''_agent.py'' f" "suffix ''_agent.py'' g" by (simp_all add: is_candidate_def)
  then have "suffix ''.py'' f" "suffix ''.py'' g" by (simp_all add: agent_suffix_py)
  then show "f = g" using e by (rule module_name_of_inj)
qed

lemma discovered_keys:
  assumes "distinct listdir"
  shows "map fst (get_available_agents listdir import_module)
           = map module_name_of (filter (is_candidate import_module) listdir)"
  by (simp add: get_available_agents_distinct [OF assms] discovered_entry_def comp_def)

lemma discovered_keys_distinct:
  assumes "distinct listdir"
  shows "distinct (map fst (get_available_agents listdir import_module))"
  unfolding discovered_keys [OF assms]
  using assms module_name_of_inj_on [of listdir import_module]
  by (simp add: distinct_map)

lemma discovered_iff:
  assumes "distinct listdir" and "fname \<in> set listdir" and "suffix ''_agent.py'' fname"
  shows "(module_name_of fname \<in> fst ` set (get_available_agents listdir import_module))
           = candidate_accepted (import_module (module_name_of fname))"
proof
  assume "module_name_of fname \<in> fst ` set (get_available_agents listdir import_module)"
  then have "module_name_of fname \<in> set (map fst (get_available_agents listdir import_module))"
    by simp
  then obtain g where g: "g \<in> set listdir" "is_candidate import_module g"
      "module_name_of g = module_name_of fname"
    unfolding discovered_keys [OF assms(1)] by auto
  from g(2) have "suffix ''_agent.py'' g" by (simp add: is_candidate_def)
  then have "suffix ''.py'' g" by (rule agent_suffix_py)
  moreover from assms(3) have "suffix ''.py'' fname" by (rule agent_suffix_py)
  ultimately have "g = fname" using g(3) by (rule module_name_of_inj)
  with g(2) show "candidate_accepted (import_module (module_name_of fname))"
    by (simp add: is_candidate_def)
next
  assume "candidate_accepted (import_module (module_name_of fname))"
  with assms(2,3) have "fname \<in> set (filter (is_candidate import_module) listdir)"
    by (simp add: is_candidate_def)
  then have "module_name_of fname \<in> set (map fst (get_available_agents listdir import_module))"
    unfolding discovered_keys [OF assms(1)] by simp
  then show "module_name_of fname \<in> fst ` set (get_available_agents listdir import_module)"
    by simp
qed

lemma discovered_name:
  assumes "distinct listdir" and "fname \<in> set listdir" and "suffix ''_agent.py'' fname"
    and "candidate_accepted (import_module (module_name_of fname))"
  shows "map_of (get_available_agents listdir import_module) (module_name_of fname)
           = Some (candidate_name (import_module (module_name_of fname)))"
proof (rule map_of_is_SomeI)
  show "distinct (map fst (get_available_agents listdir import_module))"
    using assms(1) by (rule discovered_keys_distinct)
  from assms(2-4) have "fname \<in> set (filter (is_candidate import_module) listdir)"
    by (simp add: is_candidate_def)
  then show "(module_name_of fname, candidate_name (import_module (module_name_of fname)))
      \<in> set (get_available_agents listdir import_module)"
    unfolding get_available_agents_distinct [OF assms(1)]
    by (auto simp: discovered_entry_def)
qed

text \<open>
  Claim C4, amended.  For a file of the listing (which has no repeated name) that ends with
  \<^verbatim>\<open>_agent.py\<close>, its module name is a key of the discovered map exactly when the
  candidate is accepted: the import returns, the module has a callable \<^verbatim>\<open>Agent\<close>,
  its construction returns an object, and the object has a \<^verbatim>\<open>name\<close> and a callable
  \<^verbatim>\<open>chat\<close>.  So a candidate whose import or construction raises, or whose object
  has no \<^verbatim>\<open>name\<close> or no callable \<^verbatim>\<open>chat\<close>, is never a key, and every accepted
  candidate is a key, shown under its name, whatever the other files of the listing do.
  The name need not be non-empty.
\<close>

theorem discovery_keeps_exactly_the_valid:
  assumes "distinct listdir" and "fname \<in> set listdir" and "suffix ''_agent.py'' fname"
  shows "(module_name_of fname \<in> fst ` set (get_available_agents listdir import_module))
           = candidate_accepted (import_module (module_name_of fname))
     \<and> (candidate_accepted (import_module (module_name_of fname)) \<longrightarrow>
          map_of (get_available_agents listdir import_module) (module_name_of fname)
            = Some (candidate_name (import_module (module_name_of fname))))
     \<and> \<not> candidate_accepted (Inl e :: 'b py_module result)
     \<and> \<not> candidate_accepted (Inr NoAgent :: 'b py_module result)
     \<and> \<not> candidate_accepted (Inr AgentNotCallable :: 'b py_module result)
     \<and> \<not> candidate_accepted (Inr (AgentClass (Inl e)) :: 'b py_module result)
     \<and> \<not> candidate_accepted (Inr (AgentClass (Inr None)) :: 'b py_module result)
     \<and> candidate_accepted (Inr (AgentClass (Inr (Some (inst :: 'b agent_instance)))))
         = (inst_name inst \<noteq> None \<and> inst_chat inst = ChatCallable)"
  using discovered_iff [OF assms, of import_module] discovered_name [OF assms, of import_module]
  by (simp add: candidate_accepted_def)

theorem discovery_keeps_exactly_the_valid_witness:
  "distinct [''a_agent.py'', ''notes.txt'', ''b_agent.py'', ''c_agent.py'']
   \<and> ''a_agent.py'' \<in> set [''a_agent.py'', ''notes.txt'', ''b_agent.py'', ''c_agent.py'']
   \<and> suffix ''_agent.py'' ''a_agent.py''
   \<and> module_name_of ''a_agent.py''
        \<in> fst ` set (get_available_agents [''a_agent.py'', ''notes.txt'', ''b_agent.py'', ''c_agent.py'']
            (\<lambda>name. if name = ''b_agent'' then Inr (AgentClass (Inl (Exn OtherException ''no key'')))
                     else Inr (AgentClass (Inr (Some \<lparr>inst_name = Some ''A'', inst_chat = ChatCallable,
                                                        inst_backend = ()\<rparr>)))))"
proof -
  let ?l = "[''a_agent.py'', ''notes.txt'', ''b_agent.py'', ''c_agent.py'']"
  let ?i = "\<lambda>name. if name = ''b_agent'' then Inr (AgentClass (Inl (Exn OtherException ''no key'')))
                     else Inr (AgentClass (Inr (Some \<lparr>inst_name = Some ''A'', inst_chat = ChatCallable,
                                                        inst_backend = ()\<rparr>)))"
  have d: "distinct ?l" by simp
  have m: "''a_agent.py'' \<in> set ?l" by simp
  have s: "suffix ''_agent.py'' ''a_agent.py''" by (simp add: suffix_def)
  have a: "candidate_accepted (?i (module_name_of ''a_agent.py''))"
    by (simp add: candidate_accepted_def module_name_of_def)
  from discovery_keeps_exactly_the_valid [OF d m s, of ?i] a
  have "module_name_of ''a_agent.py'' \<in> fst ` set (get_available_agents ?l ?i)" by blast
  with d m s show ?thesis by (intro conjI)
qed

text \<open>
  Claim C4 as stated fails: a candidate whose object has the empty name and a callable
  \<^verbatim>\<open>chat\<close> is discovered, under the empty name.
\<close>

theorem discovery_keeps_an_empty_name:
  "get_available_agents [''x_agent.py'']
     (\<lambda>name. Inr (AgentClass (Inr (Some \<lparr>inst_name = Some [], inst_chat = ChatCallable,
                                           inst_backend = ()\<rparr>))))
   = [(''x_agent'', [])]"
  by (simp add: get_available_agents_def load_candidate_def safe_get_agent_instance_def
      is_valid_agent_instance_def try_except_def module_name_of_def suffix_def)

text \<open>
  Claim C5, amended.  The candidates are enumerated in the order of the directory listing,
  which the code does not sort: the keys of the discovered map are the module names of
  the accepted files in the order of the listing.  The listing has no repeated name, so
  no two candidates have the same id, and the pairs of the map are the same for every
  order of the same listing.
\<close>

theorem discovery_order_is_listing_order:
  assumes "distinct listdir"
  shows "map fst (get_available_agents listdir import_module)
           = map module_name_of (filter (is_candidate import_module) listdir)
     \<and> distinct (map fst (get_available_agents listdir import_module))
     \<and> (distinct listdir' \<and> set listdir' = set listdir \<longrightarrow>
          set (get_available_agents listdir' import_module)
            = set (get_available_agents listdir import_module))"
proof (intro conjI impI)
  show "map fst (get_available_agents listdir import_module)
           = map module_name_of (filter (is_candidate import_module) listdir)"
    using assms by (rule discovered_keys)
  show "distinct (map fst (get_available_agents listdir import_module))"
    using assms by (rule discovered_keys_distinct)
  assume "distinct listdir' \<and> set listdir' = set listdir"
  then have d: "distinct listdir'" and e: "set listdir' = set listdir" by simp_all
  show "set (get_available_agents listdir' import_module)
            = set (get_available_agents listdir import_module)"
    unfolding get_available_agents_distinct [OF d] get_available_agents_distinct [OF assms]
    by (simp add: e)
qed

theorem discovery_order_is_listing_order_witness:
  "distinct [''b_agent.py'', ''a_agent.py'']
   \<and> map fst (get_available_agents [''b_agent.py'', ''a_agent.py'']
        (\<lambda>name. Inr (AgentClass (Inr (Some \<lparr>inst_name = Some ''A'', inst_chat = ChatCallable,
                                              inst_backend = ()\<rparr>)))))
      = [''b_agent'', ''a_agent'']"
proof -
  let ?l = "[''b_agent.py'', ''a_agent.py'']"
  let ?i = "\<lambda>name :: string. Inr (AgentClass (Inr (Some \<lparr>inst_name = Some ''A'', inst_chat = ChatCallable,
                                              inst_backend = ()\<rparr>))) :: unit py_module result"
  have d: "distinct ?l" by simp
  have f: "map module_name_of (filter (is_candidate ?i) ?l) = [''b_agent'', ''a_agent'']"
    by (simp add: is_candidate_def candidate_accepted_def module_name_of_def suffix_def)
  from discovery_order_is_listing_order [OF d, of ?i] f
  have "map fst (get_available_agents ?l ?i) = [''b_agent'', ''a_agent'']" by simp
  with d show ?thesis by (intro conjI)
qed

text \<open>
  Claim C5 as stated fails: for a listing that returns \<^verbatim>\<open>b_agent.py\<close> before
  \<^verbatim>\<open>a_agent.py\<close>, the candidates are enumerated in that order, which is not the
  lexicographic one.
\<close>

theorem discovery_order_not_lexicographic:
  "\<not> sorted (map fst (get_available_agents [''b_agent.py'', ''a_agent.py'']
        (\<lambda>name. Inr (AgentClass (Inr (Some \<lparr>inst_name = Some ''A'', inst_chat = ChatCallable,
                                              inst_backend = ()\<rparr>))))))"
proof -
  have "get_available_agents [''b_agent.py'', ''a_agent.py'']
        (\<lambda>name. Inr (AgentClass (Inr (Some \<lparr>inst_name = Some ''A'', inst_chat = ChatCallable,
                                              inst_backend = ()\<rparr>))))
      = [(''b_agent'', ''A''), (''a_agent'', ''A'')]"
    by (simp add: get_available_agents_def load_candidate_def safe_get_agent_instance_def
      is_valid_agent_instance_def try_except_def module_name_of_def suffix_def)
  moreover have "\<not> ''b_agent'' \<le> ''a_agent''" by code_simp
  ultimately show ?thesis by simp
qed

subsection \<open>The session\<close>

lemma init_block_agent:
  "agent s = None \<Longrightarrow> agent (init_block import_module selected s) = load_agent import_module selected"
  by (simp add: init_block_def load_agent_def try_except_def split: sum.splits option.splits)

lemma init_block_other:
  "current_agent_type (init_block import_module selected s) = current_agent_type s
   \<and> messages (init_block import_module selected s) = messages s"
  by (simp add: init_block_def try_except_def split: sum.splits option.splits)

lemma switch_block_changed:
  assumes "current_agent_type s = Some a" and "a \<noteq> b"
  shows "switch_block b s = s\<lparr>current_agent_type := Some b, agent := None,
            messages := (if messages s \<noteq> None then Some [] else None)\<rparr>"
  using assms by (cases "agent s"; cases "messages s") (simp_all add: switch_block_def Let_def)

text \<open>
  Claim C7, amended.  When the session holds agent \<open>a\<close> and the selection is another
  agent \<open>b\<close>, the run of the script records \<open>b\<close>, drops the instance it held whatever
  its conversation was, and the history the host shows is empty, whatever it was.  The
  instance held afterwards is the one that the construction for \<open>b\<close> returns in this
  run; when that construction fails, none is held and the script stops.
\<close>

theorem switching_agent_resets_session:
  assumes "current_agent_type s = Some a" and "a \<noteq> b"
  shows "current_agent_type (fst (select_agent import_module b s)) = Some b
     \<and> agent (fst (select_agent import_module b s)) = load_agent import_module b
     \<and> visible_history (fst (select_agent import_module b s)) = []
     \<and> snd (select_agent import_module b s) = (load_agent import_module b = None)"
proof -
  let ?s1 = "switch_block b s"
  let ?s2 = "init_block import_module b ?s1"
  have s1: "?s1 = s\<lparr>current_agent_type := Some b, agent := None,
            messages := (if messages s \<noteq> None then Some [] else None)\<rparr>"
    using assms by (rule switch_block_changed)
  have a2: "agent ?s2 = load_agent import_module b"
    by (rule init_block_agent) (simp add: s1)
  have c2: "current_agent_type ?s2 = Some b" and m2: "messages ?s2 = (if messages s \<noteq> None then Some [] else None)"
    using init_block_other [of import_module b ?s1] by (simp_all add: s1)
  have sel: "select_agent import_module b s
      = (if load_agent import_module b = None then (?s2, True)
         else ((if messages ?s2 = None then ?s2\<lparr>messages := Some []\<rparr> else ?s2), False))"
    by (simp add: select_agent_def Let_def a2)
  from a2 c2 m2 show ?thesis
    unfolding sel by (simp add: visible_history_def)
qed

theorem switching_agent_resets_session_witness:
  "current_agent_type
      \<lparr>current_agent_type = Some ''a_agent'',
       agent = Some \<lparr>inst_name = Some ''A'', inst_chat = ChatCallable, inst_backend = [''turn'']\<rparr>,
       messages = Some [user_turn ''hi'', assistant_turn ''hello'']\<rparr> = Some ''a_agent''
   \<and> ''a_agent'' \<noteq> ''b_agent''
   \<and> agent (fst (select_agent
        (\<lambda>name. Inr (AgentClass (Inr (Some \<lparr>inst_name = Some ''B'', inst_chat = ChatCallable,
                                              inst_backend = []\<rparr>))))
        ''b_agent''
        \<lparr>current_agent_type = Some ''a_agent'',
         agent = Some \<lparr>inst_name = Some ''A'', inst_chat = ChatCallable, inst_backend = [''turn'']\<rparr>,
         messages = Some [user_turn ''hi'', assistant_turn ''hello'']\<rparr>))
      = Some \<lparr>inst_name = Some ''B'', inst_chat = ChatCallable, inst_backend = []\<rparr>
   \<and> visible_history (fst (select_agent
        (\<lambda>name. Inr (AgentClass (Inr (Some \<lparr>inst_name = Some ''B'', inst_chat = ChatCallable,
                                              inst_backend = []\<rparr>))))
        ''b_agent''
        \<lparr>current_agent_type = Some ''a_agent'',
         agent = Some \<lparr>inst_name = Some ''A'', inst_chat = ChatCallable, inst_backend = [''turn'']\<rparr>,
         messages = Some [user_turn ''hi'', assistant_turn ''hello'']\<rparr>))
      = []"
proof -
  let ?s = "\<lparr>current_agent_type = Some ''a_agent'',
       agent = Some \<lparr>inst_name = Some ''A'', inst_chat = ChatCallable, inst_backend = [''turn'']\<rparr>,
       messages = Some [user_turn ''hi'', assistant_turn ''hello'']\<rparr>"
  let ?i = "\<lambda>name :: string. Inr (AgentClass (Inr (Some \<lparr>inst_name = Some ''B'', inst_chat = ChatCallable,
                                              inst_backend = [] :: string list\<rparr>))) :: string list py_module result"
  have c: "current_agent_type ?s = Some ''a_agent''" by simp
  have n: "''a_agent'' \<noteq> ''b_agent''" by simp
  have l: "load_agent ?i ''b_agent''
      = Some \<lparr>inst_name = Some ''B'', inst_chat = ChatCallable, inst_backend = []\<rparr>"
    by (simp add: load_agent_def safe_get_agent_instance_def is_valid_agent_instance_def)
  note t = switching_agent_resets_session [OF c n, of ?i]
  from t [THEN conjunct2, THEN conjunct1] l
  have a: "agent (fst (select_agent ?i ''b_agent'' ?s))
      = Some \<lparr>inst_name = Some ''B'', inst_chat = ChatCallable, inst_backend = []\<rparr>"
    by simp
  have v: "visible_history (fst (select_agent ?i ''b_agent'' ?s)) = []"
    by (rule t [THEN conjunct2, THEN conjunct2, THEN conjunct1])
  from c n a v show ?thesis by (intro conjI)
qed

text \<open>
  Claim C7 as stated fails: the class of \<open>b\<close> is called once at discovery and again at
  selection.  Here the first call returns a valid object, so that \<open>b\<close> can be selected,
  and the second raises: after the switch no instance is held and the script stops.
\<close>

theorem switching_agent_can_hold_no_instance:
  "''b_agent'' \<in> fst ` set (get_available_agents [''a_agent.py'', ''b_agent.py'']
       (\<lambda>name. Inr (AgentClass (Inr (Some \<lparr>inst_name = Some ''Agent'', inst_chat = ChatCallable,
                                             inst_backend = [] :: string list\<rparr>)))))
   \<and> agent (fst (select_agent
        (\<lambda>name. if name = ''b_agent''
                 then Inr (AgentClass (Inl (Exn OtherException ''connection refused'')))
                 else Inr (AgentClass (Inr (Some \<lparr>inst_name = Some ''Agent'', inst_chat = ChatCallable,
                                                    inst_backend = []\<rparr>))))
        ''b_agent''
        \<lparr>current_agent_type = Some ''a_agent'',
         agent = Some \<lparr>inst_name = Some ''Agent'', inst_chat = ChatCallable, inst_backend = [''turn'']\<rparr>,
         messages = Some [user_turn ''hi'', assistant_turn ''hello'']\<rparr>))
      = None
   \<and> snd (select_agent
        (\<lambda>name. if name = ''b_agent''
                 then Inr (AgentClass (Inl (Exn OtherException ''connection refused'')))
                 else Inr (AgentClass (Inr (Some \<lparr>inst_name = Some ''Agent'', inst_chat = ChatCallable,
                                                    inst_backend = []\<rparr>))))
        ''b_agent''
        \<lparr>current_agent_type = Some ''a_agent'',
         agent = Some \<lparr>inst_name = Some ''Agent'', inst_chat = ChatCallable, inst_backend = [''turn'']\<rparr>,
         messages = Some [user_turn ''hi'', assistant_turn ''hello'']\<rparr>)
      = True"
  by (simp add: get_available_agents_def load_candidate_def safe_get_agent_instance_def
      is_valid_agent_instance_def try_except_def module_name_of_def suffix_def
      select_agent_def switch_block_def init_block_def Let_def)

end
